theory Spec2Isabelle
  imports Main "HOL-Library.Word" "HOL-Library.Signed_Division" "HOL-Library.Multiset" "HOL-Library.AList"
begin

section \<open>Go values used by the client\<close>

text \<open>
  Go strings are byte sequences, as \<^typ>\<open>string\<close> is. Go's \<open>int\<close> is modelled as
  \<^typ>\<open>int\<close>: the client only compares, divides by 100 and prints its integers, it never
  adds or multiplies them, so no operation can wrap. A \<open>float64\<close> / \<open>float32\<close> is its
  IEEE-754 bit pattern; the client only stores and prints floats, and the two printing
  routines of the standard library are parameters of the model (the record \<open>stdlib\<close>
  below).
  An \<open>error\<close> value is the message it carries (\<open>errors.New\<close>, \<open>fmt.Errorf\<close>); a
  nil error is \<open>None\<close>.
\<close>

type_synonym float32 = "32 word"
type_synonym float64 = "64 word"
type_synonym error = string

text \<open>A call either returns its value(s) or panics with a message.\<close>

datatype 'a outcome = Returned 'a | Panicked string

text \<open>
  A non-nil Go map is an association list with distinct keys; \<open>m[k] = v\<close> is
  \<^const>\<open>AList.update\<close>, \<open>v, ok := m[k]\<close> is \<^const>\<open>map_of\<close>. The position of an entry in
  the list has no meaning for the program: a \<open>range\<close> over the map visits the entries in
  an order the runtime chooses, so every permutation is a possible visiting order
  (\<open>range_orders\<close> below lists them).
\<close>

type_synonym ('k, 'v) gomap = "('k \<times> 'v) list"

subsection \<open>strconv.Itoa\<close>

fun digits :: "nat \<Rightarrow> string" where
  "digits n = (if n < 10 then [''0123456789'' ! n]
               else digits (n div 10) @ [''0123456789'' ! (n mod 10)])"

declare digits.simps [simp del]

definition Itoa :: "int \<Rightarrow> string" where
  "Itoa i = (if i < 0 then CHR ''-'' # digits (nat (- i)) else digits (nat i))"

section \<open>Batch results (the result correlator)\<close>

record Document =
  Id :: string
  Fields :: "(string, string) gomap"
  Variables :: "(string, float32) gomap"
  Categories :: "(string, string) gomap"

record addResult =
  Added :: bool
  Error :: string

record deleteResult =
  Deleted :: bool
  Error :: string

record addResults =
  hasErrors :: bool
  results :: "bool list"
  errors :: "(int, string) gomap"
  elements :: "Document list"
  failed :: "Document list"

record deleteResults =
  hasErrors :: bool
  results :: "bool list"
  errors :: "(int, string) gomap"
  elements :: "string list"
  failed :: "string list"

text \<open>
  The loop \<open>for i, v := range r\<close> of \<open>newBatchResults\<close>, from position \<open>i\<close> on. The loop
  state is \<open>(errorFlag, results, errors, failed)\<close> (primed below, the plain names being the
  record fields). \<open>documents[i]\<close> and \<open>results[i]\<close> panic
  when \<open>i\<close> is not below \<open>n = len(documents)\<close>.
\<close>

fun newBatchResults_loop ::
  "Document list \<Rightarrow> nat \<Rightarrow> addResult list
   \<Rightarrow> bool \<times> bool list \<times> (int, string) gomap \<times> Document list
   \<Rightarrow> (bool \<times> bool list \<times> (int, string) gomap \<times> Document list) outcome" where
  "newBatchResults_loop documents i [] st = Returned st"
| "newBatchResults_loop documents i (v # vs) (errorFlag, results', errors', failed') =
     (if length documents \<le> i then Panicked ''index out of range''
      else let doc = documents ! i in
           if length results' \<le> i then Panicked ''index out of range''
           else let results' = results'[i := Added v]
           in if \<not> Added v
              then newBatchResults_loop documents (Suc i) vs
                     (True, results', AList.update (int i) (addResult.Error v) errors', failed' @ [doc])
              else newBatchResults_loop documents (Suc i) vs (errorFlag, results', errors', failed'))"

definition newBatchResults :: "Document list \<Rightarrow> addResult list \<Rightarrow> addResults outcome" where
  "newBatchResults documents r =
     (if length documents \<noteq> length r
      then Panicked ''Something is wrong, len(documents) != len(r) in newBatchResults''
      else let n = length documents in
           case newBatchResults_loop documents 0 r (False, replicate n False, [], []) of
             Panicked msg \<Rightarrow> Panicked msg
           | Returned (errorFlag, results', errors', failed') \<Rightarrow>
               Returned \<lparr> addResults.hasErrors = errorFlag, addResults.results = results',
                          addResults.errors = errors', addResults.elements = documents,
                          addResults.failed = failed' \<rparr>)"

text \<open>The same loop in \<open>newBulkResults\<close>: \<open>results[i]\<close> is written first, \<open>documentIds[i]\<close>
  is read only for a failed item; both panic exactly when \<open>i\<close> is not below \<open>n\<close>.\<close>

fun newBulkResults_loop ::
  "string list \<Rightarrow> nat \<Rightarrow> deleteResult list
   \<Rightarrow> bool \<times> bool list \<times> (int, string) gomap \<times> string list
   \<Rightarrow> (bool \<times> bool list \<times> (int, string) gomap \<times> string list) outcome" where
  "newBulkResults_loop documentIds i [] st = Returned st"
| "newBulkResults_loop documentIds i (v # vs) (errorFlag, results', errors', failed') =
     (if length results' \<le> i then Panicked ''index out of range''
      else let results' = results'[i := Deleted v]
           in if \<not> Deleted v
              then (if length documentIds \<le> i then Panicked ''index out of range''
                    else newBulkResults_loop documentIds (Suc i) vs
                           (True, results', AList.update (int i) (deleteResult.Error v) errors',
                            failed' @ [documentIds ! i]))
              else newBulkResults_loop documentIds (Suc i) vs (errorFlag, results', errors', failed'))"

definition newBulkResults :: "string list \<Rightarrow> deleteResult list \<Rightarrow> deleteResults outcome" where
  "newBulkResults documentIds r =
     (if length documentIds \<noteq> length r
      then Panicked ''Something is wrong, len(documentIds) != len(r) in newBulkResults''
      else let n = length documentIds in
           case newBulkResults_loop documentIds 0 r (False, replicate n False, [], []) of
             Panicked msg \<Rightarrow> Panicked msg
           | Returned (errorFlag, results', errors', failed') \<Rightarrow>
               Returned \<lparr> deleteResults.hasErrors = errorFlag, deleteResults.results = results',
                          deleteResults.errors = errors', deleteResults.elements = documentIds,
                          deleteResults.failed = failed' \<rparr>)"

text \<open>The accessors. Indexing a slice outside \<open>0 \<le> i < len\<close> panics; a map lookup of a
  missing key yields the zero value and \<open>ok = false\<close>.\<close>

definition index_slice :: "'a list \<Rightarrow> int \<Rightarrow> 'a outcome" where
  "index_slice xs i =
     (if 0 \<le> i \<and> i < int (length xs) then Returned (xs ! nat i)
      else Panicked ''index out of range'')"

definition lookup_string :: "('k, string) gomap \<Rightarrow> 'k \<Rightarrow> string \<times> bool" where
  "lookup_string m k = (case map_of m k of None \<Rightarrow> ('''', False) | Some v \<Rightarrow> (v, True))"

definition HasErrors :: "addResults \<Rightarrow> bool" where
  "HasErrors r = addResults.hasErrors r"

definition GetResult :: "addResults \<Rightarrow> int \<Rightarrow> bool outcome" where
  "GetResult r i = index_slice (addResults.results r) i"

definition GetDocument :: "addResults \<Rightarrow> int \<Rightarrow> Document outcome" where
  "GetDocument r i = index_slice (addResults.elements r) i"

definition GetErrorMessage :: "addResults \<Rightarrow> int \<Rightarrow> string \<times> bool" where
  "GetErrorMessage r i = lookup_string (addResults.errors r) i"

definition GetFailedDocuments :: "addResults \<Rightarrow> Document list" where
  "GetFailedDocuments r = addResults.failed r"

definition HasErrors_delete :: "deleteResults \<Rightarrow> bool" where
  "HasErrors_delete r = deleteResults.hasErrors r"

definition GetResult_delete :: "deleteResults \<Rightarrow> int \<Rightarrow> bool outcome" where
  "GetResult_delete r i = index_slice (deleteResults.results r) i"

definition GetDocid :: "deleteResults \<Rightarrow> int \<Rightarrow> string outcome" where
  "GetDocid r i = index_slice (deleteResults.elements r) i"

definition GetErrorMessage_delete :: "deleteResults \<Rightarrow> int \<Rightarrow> string \<times> bool" where
  "GetErrorMessage_delete r i = lookup_string (deleteResults.errors r) i"

definition GetFailedDocids :: "deleteResults \<Rightarrow> string list" where
  "GetFailedDocids r = deleteResults.failed r"

section \<open>Standard-library routines the client calls\<close>

subsection \<open>strings.Join\<close>

fun Join :: "string list \<Rightarrow> string \<Rightarrow> string" where
  "Join [] sep = ''''"
| "Join [x] sep = x"
| "Join (x # y # ys) sep = x @ sep @ Join (y # ys) sep"

subsection \<open>url.QueryEscape\<close>

text \<open>
  \<open>net/url.QueryEscape\<close>: letters, digits and \<open>-\<close>, \<open>_\<close>, \<open>.\<close>, \<open>~\<close> are kept, a space
  becomes \<open>+\<close>, every other byte becomes \<open>%XX\<close> with upper-case hexadecimal digits.
\<close>

definition upperhex :: string where
  "upperhex = ''0123456789ABCDEF''"

definition shouldEscape :: "char \<Rightarrow> bool" where
  "shouldEscape c =
     (let n = (of_char c :: nat) in
      \<not> ((97 \<le> n \<and> n \<le> 122) \<or> (65 \<le> n \<and> n \<le> 90) \<or> (48 \<le> n \<and> n \<le> 57)
         \<or> c = CHR ''-'' \<or> c = CHR ''_'' \<or> c = CHR ''.'' \<or> c = CHR ''~''))"

fun QueryEscape :: "string \<Rightarrow> string" where
  "QueryEscape [] = []"
| "QueryEscape (c # cs) =
     (if shouldEscape c
      then (if c = CHR '' '' then ''+''
            else [CHR ''%'', upperhex ! ((of_char c :: nat) div 16), upperhex ! ((of_char c :: nat) mod 16)])
      else [c]) @ QueryEscape cs"

subsection \<open>Float printing and JSON encoding\<close>

text \<open>
  The three remaining library routines are parameters of the model:
  \<open>FormatFloat_g v\<close> is \<open>strconv.FormatFloat(v, 'g', -1, 64)\<close> (the shortest decimal that
  reads back as \<open>v\<close>), \<open>Sprintf_f v\<close> is \<open>fmt.Sprintf("%f", v)\<close> (fixed point, six decimals)
  and \<open>Marshal_categories m\<close> is \<open>string(val)\<close> for \<open>val, err := json.Marshal(m)\<close> on a
  \<open>map[string][]string\<close>.
\<close>

record stdlib =
  FormatFloat_g :: "float64 \<Rightarrow> string"
  Sprintf_f :: "float64 \<Rightarrow> string"
  Marshal_categories :: "(string, string list) gomap \<Rightarrow> string"

subsection \<open>The visiting orders of a range over a map\<close>

fun insert_everywhere :: "'a \<Rightarrow> 'a list \<Rightarrow> 'a list list" where
  "insert_everywhere x [] = [[x]]"
| "insert_everywhere x (y # ys) = (x # y # ys) # map ((#) y) (insert_everywhere x ys)"

fun range_orders :: "('k, 'v) gomap \<Rightarrow> ('k \<times> 'v) list list" where
  "range_orders [] = [[]]"
| "range_orders (e # es) = concat (map (insert_everywhere e) (range_orders es))"

section \<open>The query builder (query.go)\<close>

record varRange =
  id_v :: int
  floor_v :: float64
  ceil_v :: float64

text \<open>
  \<open>queryVariables\<close> is \<open>None\<close> for a nil map: \<open>QueryVariables\<close> stores whatever map the
  caller passes. \<open>categoryFilters\<close> is created by \<open>QueryForString\<close> and never reassigned;
  \<open>fetchFields\<close> and \<open>snippetFields\<close> are only tested with \<open>!= nil && len(..) > 0\<close>, which
  is \<open>len(..) > 0\<close>, so a nil slice is the empty list.
\<close>

record queryState =
  queryString :: string
  start :: int
  length_q :: int
  scoringFunction :: int
  fetchFields :: "string list"
  snippetFields :: "string list"
  queryVariables :: "(int, float64) gomap option"
  fetchCategories :: bool
  fetchVariables :: bool
  docvarFilters :: "varRange list"
  functionFilters :: "varRange list"
  categoryFilters :: "(string, string list) gomap"

definition QueryForString :: "string \<Rightarrow> queryState" where
  "QueryForString s =
     \<lparr> queryString = s, start = 0, length_q = 10, scoringFunction = 0, fetchFields = [],
       snippetFields = [], queryVariables = Some [], fetchCategories = False,
       fetchVariables = False, docvarFilters = [], functionFilters = [], categoryFilters = [] \<rparr>"

definition Start :: "int \<Rightarrow> queryState \<Rightarrow> queryState" where
  "Start start' q = q\<lparr>start := start'\<rparr>"

definition NumResults :: "int \<Rightarrow> queryState \<Rightarrow> queryState" where
  "NumResults length' q = q\<lparr>length_q := length'\<rparr>"

definition FetchFields :: "string list \<Rightarrow> queryState \<Rightarrow> queryState" where
  "FetchFields fields' q = q\<lparr>fetchFields := fields'\<rparr>"

definition SnippetFields :: "string list \<Rightarrow> queryState \<Rightarrow> queryState" where
  "SnippetFields fields' q = q\<lparr>snippetFields := fields'\<rparr>"

definition FetchVariables :: "queryState \<Rightarrow> queryState" where
  "FetchVariables q = q\<lparr>fetchVariables := True\<rparr>"

definition FetchCategories :: "queryState \<Rightarrow> queryState" where
  "FetchCategories q = q\<lparr>fetchCategories := True\<rparr>"

definition ScoringFunction :: "int \<Rightarrow> queryState \<Rightarrow> queryState" where
  "ScoringFunction function' q = q\<lparr>scoringFunction := function'\<rparr>"

definition QueryVariables :: "(int, float64) gomap option \<Rightarrow> queryState \<Rightarrow> queryState" where
  "QueryVariables variables q = q\<lparr>queryVariables := variables\<rparr>"

text \<open>\<open>q.queryVariables[variable] = val\<close>: an assignment into a nil map panics.\<close>

definition QueryVariable :: "int \<Rightarrow> float64 \<Rightarrow> queryState \<Rightarrow> queryState outcome" where
  "QueryVariable variable val q =
     (case queryVariables q of
        None \<Rightarrow> Panicked ''assignment to entry in nil map''
      | Some m \<Rightarrow> Returned (q\<lparr>queryVariables := Some (AList.update variable val m)\<rparr>))"

definition DocumentVariableFilter :: "int \<Rightarrow> float64 \<Rightarrow> float64 \<Rightarrow> queryState \<Rightarrow> queryState" where
  "DocumentVariableFilter variable floor' ceil' q =
     q\<lparr>docvarFilters := docvarFilters q @ [\<lparr>id_v = variable, floor_v = floor', ceil_v = ceil'\<rparr>]\<rparr>"

definition FunctionFilter :: "int \<Rightarrow> float64 \<Rightarrow> float64 \<Rightarrow> queryState \<Rightarrow> queryState" where
  "FunctionFilter variable floor' ceil' q =
     q\<lparr>functionFilters := functionFilters q @ [\<lparr>id_v = variable, floor_v = floor', ceil_v = ceil'\<rparr>]\<rparr>"

text \<open>
  \<open>formatRangeParam\<close>. The \<open>if totalValue, ok := params[k]; ok { totalValue += "," + newValue }\<close>
  of the source declares a second \<open>totalValue\<close>, local to the \<open>if\<close>: the joined string
  (\<open>inner\<close> below) is dropped when the \<open>if\<close> ends, and \<open>params[k] = totalValue\<close> stores
  the outer variable.
\<close>

fun formatRangeParam_loop :: "stdlib \<Rightarrow> varRange list \<Rightarrow> (string, string) gomap \<Rightarrow> (string, string) gomap" where
  "formatRangeParam_loop lib [] params = params"
| "formatRangeParam_loop lib (v # vs) params =
     (let k = Itoa (id_v v);
          newValue = FormatFloat_g lib (floor_v v) @ '':'' @ FormatFloat_g lib (ceil_v v);
          totalValue = newValue;
          inner = (case map_of params k of
                     Some totalValue' \<Rightarrow> Some (totalValue' @ '','' @ newValue)
                   | None \<Rightarrow> None)
      in formatRangeParam_loop lib vs (AList.update k totalValue params))"

definition formatRangeParam :: "stdlib \<Rightarrow> varRange list \<Rightarrow> (string, string) gomap" where
  "formatRangeParam lib ranges = formatRangeParam_loop lib ranges []"

text \<open>
  \<open>toQueryString\<close> (the request helpers' file). \<open>toQueryString_loop\<close> is the loop body run
  over the entries in one visiting order; \<open>s[0:len(s)-1]\<close> panics on the empty string,
  which is what the loop leaves for a non-nil map with no entry. The order of the
  \<open>range\<close> is the runtime's choice, so \<open>toQueryString\<close>, and each function below that
  runs a \<open>range\<close> over a map or calls one that does, yields the list of the outcomes the
  call can have, one per visiting order.
\<close>

fun toQueryString_loop :: "(string \<times> string) list \<Rightarrow> string \<Rightarrow> string" where
  "toQueryString_loop [] s = s"
| "toQueryString_loop ((k, v) # es) s = toQueryString_loop es (s @ k @ ''='' @ QueryEscape v @ ''&'')"

definition toQueryString_in :: "(string \<times> string) list \<Rightarrow> string outcome" where
  "toQueryString_in es =
     (let s = toQueryString_loop es '''' in
      if s = [] then Panicked ''slice bounds out of range'' else Returned (take (length s - 1) s))"

definition toQueryString :: "(string, string) gomap option \<Rightarrow> string outcome list" where
  "toQueryString params =
     (case params of
        None \<Rightarrow> [Returned '''']
      | Some m \<Rightarrow> map toQueryString_in (range_orders m))"

text \<open>
  \<open>ToQueryParams\<close>. The source builds the map \<open>params\<close> and, next to it, a string \<open>s\<close> in
  a fixed order; its last statement \<open>s = toQueryString(params)\<close> overwrites \<open>s\<close>, so the
  value returned is the serialisation of \<open>params\<close>. Both are carried here as the pair
  \<open>(params, s)\<close>. The three \<open>range\<close> loops over maps run over one visiting order each
  (\<open>vars\<close>, \<open>docvars\<close> and \<open>functions\<close> in \<open>ToQueryParams_build\<close>; \<open>vars\<close> is an order of
  \<open>q.queryVariables\<close> and has its length).
\<close>

definition ToQueryParams_head :: "queryState \<Rightarrow> (string, string) gomap \<times> string" where
  "ToQueryParams_head q =
     (let params = [];
          params = AList.update ''q'' (queryString q) params;
          s = ''q='' @ QueryEscape (queryString q);
          (params, s) = (if start q > 0
                         then (AList.update ''start'' (Itoa (start q)) params,
                               s @ ''&start='' @ Itoa (start q))
                         else (params, s));
          params = AList.update ''len'' (Itoa (length_q q)) params;
          s = s @ ''&len='' @ Itoa (length_q q);
          (params, s) = (if scoringFunction q > 0
                         then (AList.update ''function'' (Itoa (scoringFunction q)) params,
                               s @ ''&function='' @ Itoa (scoringFunction q))
                         else (params, s));
          (params, s) = (if length (snippetFields q) > 0
                         then (AList.update ''snippet'' (Join (snippetFields q) '','') params,
                               s @ ''&snippet='' @ QueryEscape (Join (snippetFields q) '',''))
                         else (params, s));
          (params, s) = (if length (fetchFields q) > 0
                         then (AList.update ''fetch'' (Join (fetchFields q) '','') params,
                               s @ ''&fetch='' @ QueryEscape (Join (fetchFields q) '',''))
                         else (params, s))
      in (params, s))"

fun ToQueryParams_vars :: "stdlib \<Rightarrow> (int \<times> float64) list \<Rightarrow> (string, string) gomap \<times> string
    \<Rightarrow> (string, string) gomap \<times> string" where
  "ToQueryParams_vars lib [] (params, s) = (params, s)"
| "ToQueryParams_vars lib ((k, v) # kvs) (params, s) =
     ToQueryParams_vars lib kvs
       (AList.update (''var'' @ Itoa k) (Sprintf_f lib v) params,
        s @ ''&var'' @ Itoa k @ ''='' @ FormatFloat_g lib v)"

definition ToQueryParams_flags :: "stdlib \<Rightarrow> queryState \<Rightarrow> (string, string) gomap \<times> string
    \<Rightarrow> (string, string) gomap \<times> string" where
  "ToQueryParams_flags lib q ps =
     (let (params, s) = ps;
          (params, s) = (if fetchVariables q
                         then (AList.update ''fetch_variables'' ''*'' params,
                               s @ ''&fetch_variables='' @ QueryEscape ''*'')
                         else (params, s));
          (params, s) = (if fetchCategories q
                         then (AList.update ''fetch_categories'' ''*'' params,
                               s @ ''&fetch_categories='' @ QueryEscape ''*'')
                         else (params, s));
          (params, s) = (if length (categoryFilters q) > 0
                         then (let val = Marshal_categories lib (categoryFilters q)
                               in (AList.update ''category_filters'' val params,
                                   s @ ''&category_filters'' @ QueryEscape val))
                         else (params, s))
      in (params, s))"

fun ToQueryParams_ranges :: "string \<Rightarrow> (string \<times> string) list \<Rightarrow> (string, string) gomap
    \<Rightarrow> (string, string) gomap" where
  "ToQueryParams_ranges prefix [] params = params"
| "ToQueryParams_ranges prefix ((k, v) # kvs) params =
     ToQueryParams_ranges prefix kvs (AList.update (prefix @ k) v params)"

definition ToQueryParams_build :: "stdlib \<Rightarrow> queryState \<Rightarrow> (int \<times> float64) list
    \<Rightarrow> (string \<times> string) list \<Rightarrow> (string \<times> string) list \<Rightarrow> (string, string) gomap" where
  "ToQueryParams_build lib q vars docvars functions =
     (let (params, s) = ToQueryParams_head q;
          (params, s) = (if length vars > 0
                         then ToQueryParams_vars lib vars (params, s) else (params, s));
          (params, s) = ToQueryParams_flags lib q (params, s);
          params = (if length (docvarFilters q) > 0
                    then ToQueryParams_ranges ''filter_docvar'' docvars params else params);
          params = (if length (functionFilters q) > 0
                    then ToQueryParams_ranges ''filter_function'' functions params else params)
      in params)"

text \<open>A nil map has length 0 and no entry to visit.\<close>

definition entries :: "('k, 'v) gomap option \<Rightarrow> ('k, 'v) gomap" where
  "entries m = (case m of None \<Rightarrow> [] | Some es \<Rightarrow> es)"

definition ToQueryParams_params :: "stdlib \<Rightarrow> queryState \<Rightarrow> (string, string) gomap list" where
  "ToQueryParams_params lib q =
     concat (map (\<lambda>vars.
       concat (map (\<lambda>docvars.
         map (\<lambda>functions. ToQueryParams_build lib q vars docvars functions)
           (range_orders (formatRangeParam lib (functionFilters q))))
         (range_orders (formatRangeParam lib (docvarFilters q)))))
       (range_orders (entries (queryVariables q))))"

definition ToQueryParams :: "stdlib \<Rightarrow> queryState \<Rightarrow> string outcome list" where
  "ToQueryParams lib q =
     concat (map (\<lambda>params. toQueryString (Some params)) (ToQueryParams_params lib q))"

section \<open>The request helpers\<close>

text \<open>
  A response as the client reads it: the status code, the status line, and what
  \<open>ioutil.ReadAll(resp.Body)\<close> yields (the bytes read and the read error, if any).
  \<open>request\<close> returns \<open>(resp, err)\<close>; either may be nil. The HTTP exchange itself is
  outside the client: an operation that sends a body takes the pair its \<open>request\<close> call
  returns as an argument (\<open>reply\<close>), and \<open>doRequest\<close>, which sends none, takes the network
  as a function from the method and the URI to that pair.
\<close>

record Response =
  StatusCode :: int
  Status :: string
  Body :: string
  ReadErr :: "error option"

type_synonym reply = "Response option \<times> error option"

text \<open>A decoded JSON value; \<open>JNull\<close> is also the nil interface value.\<close>

datatype json = JNull | JBool bool | JNumber float64 | JString string
  | JArray "json list" | JObject "(string \<times> json) list"

text \<open>
  \<open>json.Unmarshal\<close> is a parameter, at the three types the client decodes into: an
  \<open>interface{}\<close> (left nil when the call fails), a \<open>[]addResult\<close> and a
  \<open>[]deleteResult\<close>.
\<close>

record decoders =
  Unmarshal_value :: "string \<Rightarrow> error + json"
  Unmarshal_addResults :: "string \<Rightarrow> error + addResult list"
  Unmarshal_deleteResults :: "string \<Rightarrow> error + deleteResult list"

definition makeIndexUrl :: "string \<Rightarrow> string \<Rightarrow> string" where
  "makeIndexUrl apiUrl name = apiUrl @ ''/v1/indexes/'' @ name"

text \<open>\<open>status/100 == 2\<close>, with Go's division, which truncates towards zero.\<close>

definition isOk :: "int \<Rightarrow> bool" where
  "isOk status = (status sdiv 100 = 2)"

text \<open>
  \<open>doRequest\<close> from the reply on. It never tests \<open>err\<close>: \<open>defer resp.Body.Close()\<close>
  dereferences \<open>resp\<close>, which panics when \<open>resp\<close> is nil; the type assertion
  \<open>i.(map[string]interface{})\<close> panics unless the decoded value is an object.
\<close>

definition doRequest_reply :: "decoders \<Rightarrow> reply \<Rightarrow> ((string, json) gomap option \<times> error option) outcome" where
  "doRequest_reply dec rp =
     (case fst rp of
        None \<Rightarrow> Panicked ''invalid memory address or nil pointer dereference''
      | Some resp \<Rightarrow>
          if StatusCode resp = 404 then Returned (None, Some ''Index does not exist'')
          else if StatusCode resp = 204
            then Returned (None, Some (''Index Already Exists '' @ Itoa (StatusCode resp)))
          else if StatusCode resp \<ge> 400
            then Returned (None, Some (''HTTP response '' @ Itoa (StatusCode resp)))
          else if length (Body resp) = 0 then Returned (None, ReadErr resp)
          else (case Unmarshal_value dec (Body resp) of
                  Inr (JObject m) \<Rightarrow> Returned (Some m, None)
                | _ \<Rightarrow> Panicked ''interface conversion: not map[string]interface {}''))"

definition doRequest :: "decoders \<Rightarrow> (string \<Rightarrow> string \<Rightarrow> reply) \<Rightarrow> string \<Rightarrow> string
    \<Rightarrow> (string, string) gomap option \<Rightarrow> ((string, json) gomap option \<times> error option) outcome list" where
  "doRequest dec net method requestUrl params =
     map (\<lambda>qs. case qs of
                  Panicked msg \<Rightarrow> Panicked msg
                | Returned queryString' \<Rightarrow>
                    doRequest_reply dec (net method (requestUrl @ ''?'' @ queryString')))
         (toQueryString params)"

section \<open>The index client\<close>

record IndexClient =
  url :: string
  metadata :: "(string, json) gomap option"

definition refreshMetadata :: "decoders \<Rightarrow> (string \<Rightarrow> string \<Rightarrow> reply) \<Rightarrow> IndexClient
    \<Rightarrow> ((string, json) gomap option \<times> error option) outcome list" where
  "refreshMetadata dec net client = doRequest dec net ''GET'' (url client) None"

text \<open>\<open>GetMetadata\<close> returns the client as it leaves it, next to its two results.\<close>

definition GetMetadata :: "decoders \<Rightarrow> (string \<Rightarrow> string \<Rightarrow> reply) \<Rightarrow> IndexClient
    \<Rightarrow> (IndexClient \<times> (string, json) gomap option \<times> error option) outcome list" where
  "GetMetadata dec net client =
     (if metadata client = None
      then map (\<lambda>out. case out of
                  Panicked msg \<Rightarrow> Panicked msg
                | Returned (m, err) \<Rightarrow> Returned (client\<lparr>metadata := m\<rparr>, m, err))
               (refreshMetadata dec net client)
      else [Returned (client, metadata client, None)])"

definition Exists :: "decoders \<Rightarrow> (string \<Rightarrow> string \<Rightarrow> reply) \<Rightarrow> IndexClient \<Rightarrow> bool outcome list" where
  "Exists dec net client =
     map (\<lambda>out. case out of
            Panicked msg \<Rightarrow> Panicked msg
          | Returned (m, err) \<Rightarrow> Returned (err = None))
         (refreshMetadata dec net client)"

definition Search :: "decoders \<Rightarrow> (string \<Rightarrow> string \<Rightarrow> reply) \<Rightarrow> IndexClient \<Rightarrow> string
    \<Rightarrow> ((string, json) gomap option \<times> error option) outcome list" where
  "Search dec net client queryString' =
     (let searchUrl = url client @ ''/search'';
          params = Some [(''q'', queryString')]
      in doRequest dec net ''GET'' searchUrl params)"

text \<open>
  \<open>CreateIndexWithOptions\<close>; \<open>rp\<close> is what \<open>request("PUT", client.url, options)\<close>
  returned (the options only travel in the request body). On 201 the metadata is fetched
  and both results of \<open>GetMetadata\<close> are dropped, but a panic in it is not.
\<close>

definition CreateIndexWithOptions :: "decoders \<Rightarrow> (string \<Rightarrow> string \<Rightarrow> reply) \<Rightarrow> reply \<Rightarrow> IndexClient
    \<Rightarrow> (IndexClient \<times> error option) outcome list" where
  "CreateIndexWithOptions dec net rp client =
     (case snd rp of
        Some err \<Rightarrow> [Returned (client, Some err)]
      | None \<Rightarrow>
         (case fst rp of
            None \<Rightarrow> [Panicked ''invalid memory address or nil pointer dereference'']
          | Some resp \<Rightarrow>
              if StatusCode resp = 201
              then map (\<lambda>out. case out of
                          Panicked msg \<Rightarrow> Panicked msg
                        | Returned (client', m, err) \<Rightarrow> Returned (client', None))
                       (GetMetadata dec net client)
              else if StatusCode resp = 204 then [Returned (client, Some ''Index already exists'')]
              else if StatusCode resp = 409
                then [Returned (client, Some ''Maximum indexes limit reached for this account'')]
              else [Returned (client, Some (''Unexpected error, HTTP status '' @ Itoa (StatusCode resp)
                                             @ '': '' @ Status resp))]))"

definition CreateIndex :: "decoders \<Rightarrow> (string \<Rightarrow> string \<Rightarrow> reply) \<Rightarrow> reply \<Rightarrow> IndexClient
    \<Rightarrow> (IndexClient \<times> error option) outcome list" where
  "CreateIndex dec net rp client = CreateIndexWithOptions dec net rp client"

text \<open>
  The document and function calls. Each takes the reply to its one \<open>request\<close>; the
  result is the error returned (\<open>None\<close> for nil). After \<open>if err != nil { return err }\<close> they
  run \<open>defer resp.Body.Close()\<close>, so a nil response with a nil error panics.
  \<open>readResponseBody\<close> yields the empty string when the read failed, \<open>ioutil.ReadAll\<close>
  the bytes read so far.
\<close>

definition readResponseBody :: "Response \<Rightarrow> string \<times> error option" where
  "readResponseBody resp = (case ReadErr resp of Some err \<Rightarrow> ('''', Some err) | None \<Rightarrow> (Body resp, None))"

definition AddFunction :: "reply \<Rightarrow> error option outcome" where
  "AddFunction rp =
     (case snd rp of
        Some err \<Rightarrow> Returned (Some err)
      | None \<Rightarrow>
         (case fst rp of
            None \<Rightarrow> Panicked ''invalid memory address or nil pointer dereference''
          | Some resp \<Rightarrow>
              if isOk (StatusCode resp) then Returned None
              else if StatusCode resp = 400 \<and> length (fst (readResponseBody resp)) > 0
                then Returned (Some (fst (readResponseBody resp)))
              else Returned (Some (''Unexpected '' @ Itoa (StatusCode resp) @ '' error: '' @ Status resp))))"

definition DeleteFunction :: "reply \<Rightarrow> error option outcome" where
  "DeleteFunction rp =
     (case snd rp of
        Some err \<Rightarrow> Returned (Some err)
      | None \<Rightarrow>
         (case fst rp of
            None \<Rightarrow> Panicked ''invalid memory address or nil pointer dereference''
          | Some resp \<Rightarrow>
              if isOk (StatusCode resp) then Returned None
              else if StatusCode resp = 400 then Returned (Some (Status resp))
              else Returned (Some (''Unexpected '' @ Itoa (StatusCode resp) @ '' error: '' @ Status resp))))"

definition AddDocument :: "reply \<Rightarrow> error option outcome" where
  "AddDocument rp =
     (case snd rp of
        Some err \<Rightarrow> Returned (Some err)
      | None \<Rightarrow>
         (case fst rp of
            None \<Rightarrow> Panicked ''invalid memory address or nil pointer dereference''
          | Some resp \<Rightarrow>
              if isOk (StatusCode resp) then Returned None
              else if StatusCode resp = 400 \<and> length (Body resp) > 0
                then Returned (Some (Body resp))
              else Returned (Some ''Unexpected error adding document'')))"

definition UpdateVariables :: "reply \<Rightarrow> error option outcome" where
  "UpdateVariables rp =
     (case snd rp of
        Some err \<Rightarrow> Returned (Some err)
      | None \<Rightarrow>
         (case fst rp of
            None \<Rightarrow> Panicked ''invalid memory address or nil pointer dereference''
          | Some resp \<Rightarrow>
              if isOk (StatusCode resp) then Returned None
              else if StatusCode resp = 400 \<and> length (Body resp) > 0
                then Returned (Some (Body resp))
              else Returned (Some ''Unexpected error updating variables'')))"

definition DeleteDocument :: "reply \<Rightarrow> error option outcome" where
  "DeleteDocument rp =
     (case snd rp of
        Some err \<Rightarrow> Returned (Some err)
      | None \<Rightarrow>
         (case fst rp of
            None \<Rightarrow> Panicked ''invalid memory address or nil pointer dereference''
          | Some resp \<Rightarrow>
              if isOk (StatusCode resp) then Returned None
              else if StatusCode resp = 404 then Returned (Some ''Index does not exist'')
              else Returned (Some (''Unexpected '' @ Itoa (StatusCode resp) @ '' error: '' @ Status resp))))"

text \<open>The batch calls return \<open>(results, err)\<close>.\<close>

definition AddDocuments :: "decoders \<Rightarrow> reply \<Rightarrow> Document list \<Rightarrow> (addResults option \<times> error option) outcome" where
  "AddDocuments dec rp documents =
     (case snd rp of
        Some err \<Rightarrow> Returned (None, Some err)
      | None \<Rightarrow>
         (case fst rp of
            None \<Rightarrow> Panicked ''invalid memory address or nil pointer dereference''
          | Some resp \<Rightarrow>
              if isOk (StatusCode resp)
              then (case Unmarshal_addResults dec (Body resp) of
                      Inl err \<Rightarrow> Returned (None, Some err)
                    | Inr r \<Rightarrow>
                        if length documents \<noteq> length r
                        then Returned (None, Some (''Something is wrong, we have '' @ Itoa (int (length documents))
                                 @ '' docs and '' @ Itoa (int (length r)) @ '' results'' @ [CHR 0x0A]))
                        else (case newBatchResults documents r of
                                Panicked msg \<Rightarrow> Panicked msg
                              | Returned bd \<Rightarrow> Returned (Some bd, None)))
              else if StatusCode resp = 400 \<and> length (Body resp) > 0
                then Returned (None, Some (Body resp))
              else Returned (None, Some ''Unexpected error adding documents batch'')))"

definition DeleteDocuments :: "decoders \<Rightarrow> reply \<Rightarrow> string list \<Rightarrow> (deleteResults option \<times> error option) outcome" where
  "DeleteDocuments dec rp documentIds =
     (case snd rp of
        Some err \<Rightarrow> Returned (None, Some err)
      | None \<Rightarrow>
         (case fst rp of
            None \<Rightarrow> Panicked ''invalid memory address or nil pointer dereference''
          | Some resp \<Rightarrow>
              if StatusCode resp = 200
              then (case Unmarshal_deleteResults dec (Body resp) of
                      Inl err \<Rightarrow> Returned (None, Some err)
                    | Inr r \<Rightarrow>
                        (case newBulkResults documentIds r of
                           Panicked msg \<Rightarrow> Panicked msg
                         | Returned bd \<Rightarrow> Returned (Some bd, None)))
              else if StatusCode resp = 404 then Returned (None, Some ''Index does not exist'')
              else Returned (None, Some (''Unexpected '' @ Itoa (StatusCode resp) @ '' error: '' @ Status resp))))"

section \<open>The account client\<close>

record indexTankClient =
  apiUrl :: string

text \<open>
  \<open>ListIndexes\<close>: the loop over the decoded object builds one index handle per entry;
  \<open>v.(map[string]interface{})\<close> panics on an entry that is not an object.
\<close>

fun ListIndexes_loop :: "string \<Rightarrow> (string \<times> json) list \<Rightarrow> (string, IndexClient) gomap
    \<Rightarrow> (string, IndexClient) gomap outcome" where
  "ListIndexes_loop uri [] indexMap = Returned indexMap"
| "ListIndexes_loop uri ((k, v) # kvs) indexMap =
     (case v of
        JObject m \<Rightarrow>
          ListIndexes_loop uri kvs (AList.update k \<lparr>url = uri @ k, metadata = Some m\<rparr> indexMap)
      | _ \<Rightarrow> Panicked ''interface conversion: not map[string]interface {}'')"

definition ListIndexes :: "decoders \<Rightarrow> (string \<Rightarrow> string \<Rightarrow> reply) \<Rightarrow> indexTankClient
    \<Rightarrow> ((string, IndexClient) gomap option \<times> error option) outcome list" where
  "ListIndexes dec net client =
     (let uri = makeIndexUrl (apiUrl client) ''''
      in concat (map (\<lambda>out. case out of
                        Panicked msg \<Rightarrow> [Panicked msg]
                      | Returned (m, err) \<Rightarrow>
                          (case err of
                             Some e \<Rightarrow> [Returned (None, Some e)]
                           | None \<Rightarrow>
                               map (\<lambda>kvs. case ListIndexes_loop uri kvs [] of
                                             Panicked msg \<Rightarrow> Panicked msg
                                           | Returned indexMap \<Rightarrow> Returned (Some indexMap, None))
                                   (range_orders (entries m))))
                     (doRequest dec net ''GET'' uri None)))"

section \<open>Auxiliary notions\<close>

text \<open>The number a digit string denotes (the inverse of \<open>digits\<close>), and the text
  \<open>key=escaped value\<close> that one parameter contributes to a query string.\<close>

fun undigits :: "string \<Rightarrow> nat" where
  "undigits [] = 0"
| "undigits (c # cs) = (of_char c - 48) * 10 ^ length cs + undigits cs"

definition segment :: "string \<times> string \<Rightarrow> string" where
  "segment e = fst e @ ''='' @ QueryEscape (snd e)"

section \<open>Sample values\<close>

text \<open>A few \<open>float64\<close> values (1, 1.5, 2, 3 and 4) with the two renderings Go gives them,
  and a library that prints these (and only these) floats; its \<open>Marshal_categories\<close> is the
  encoding of the empty map.\<close>

definition sample_floats :: "(float64 \<times> string \<times> string) list" where
  "sample_floats =
     [(0x3FF0000000000000, ''1'', ''1.000000''),
      (0x3FF8000000000000, ''1.5'', ''1.500000''),
      (0x4000000000000000, ''2'', ''2.000000''),
      (0x4008000000000000, ''3'', ''3.000000''),
      (0x4010000000000000, ''4'', ''4.000000'')]"

definition sample_lib :: stdlib where
  "sample_lib =
     \<lparr> FormatFloat_g = (\<lambda>w. case map_of sample_floats w of Some (g, f) \<Rightarrow> g | None \<Rightarrow> ''NaN''),
       Sprintf_f = (\<lambda>w. case map_of sample_floats w of Some (g, f) \<Rightarrow> f | None \<Rightarrow> ''NaN''),
       Marshal_categories = (\<lambda>m. ''{}'') \<rparr>"

text \<open>Decoders that know three bodies each, and a response that was read without error.\<close>

definition sample_dec :: decoders where
  "sample_dec =
     \<lparr> Unmarshal_value = (\<lambda>b. if b = ''[]'' then Inr (JArray []) else if b = ''{}'' then Inr (JObject [])
                               else Inl ''invalid character''),
       Unmarshal_addResults = (\<lambda>b. if b = ''[{\"added\":true}]'' then Inr [\<lparr>Added = True, addResult.Error = ''''\<rparr>]
                               else Inl ''invalid character''),
       Unmarshal_deleteResults = (\<lambda>b. if b = ''[{\"deleted\":true}]'' then Inr [\<lparr>Deleted = True, deleteResult.Error = ''''\<rparr>]
                               else Inl ''invalid character'') \<rparr>"

definition sample_response :: "int \<Rightarrow> string \<Rightarrow> string \<Rightarrow> Response" where
  "sample_response code status body = \<lparr>StatusCode = code, Status = status, Body = body, ReadErr = None\<rparr>"

text \<open>A document used in the examples below.\<close>

definition sample_doc :: "string \<Rightarrow> Document" where
  "sample_doc i = \<lparr> Id = i, Fields = [(''text'', ''hello'')], Variables = [], Categories = [] \<rparr>"


section \<open>Verification: the batch result correlator\<close>

lemma take_Suc_update: "i < length xs \<Longrightarrow> take (Suc i) (xs[i := a]) = take i xs @ [a]"
  by (simp add: take_Suc_conv_app_nth)

lemma newBatchResults_loop_closed:
  "i + length vs = length documents \<Longrightarrow> length rs = length documents \<Longrightarrow>
   \<exists>es'. newBatchResults_loop documents i vs (ef, rs, es, fl) =
       Returned (ef \<or> (\<exists>v\<in>set vs. \<not> Added v), take i rs @ map Added vs, es',
                 fl @ map fst (filter (\<lambda>(d, v). \<not> Added v) (zip (drop i documents) vs)))
     \<and> (\<forall>k. map_of es' k =
           (if int i \<le> k \<and> k < int (i + length vs) \<and> \<not> Added (vs ! (nat k - i))
            then Some (addResult.Error (vs ! (nat k - i))) else map_of es k))"
proof (induction vs arbitrary: i ef rs es fl)
  case Nil
  then show ?case by auto
next
  case (Cons v vs)
  have i: "i < length documents" "i < length rs" using Cons.prems by simp_all
  have dr: "drop i documents = documents ! i # drop (Suc i) documents"
    using i by (simp add: Cons_nth_drop_Suc)
  let ?rs = "rs[i := Added v]"
  have len: "Suc i + length vs = length documents" "length ?rs = length documents"
    using Cons.prems by simp_all
  show ?case
  proof (cases "Added v")
    case True
    from Cons.IH [OF len, of ef es fl] obtain es' where
      st: "newBatchResults_loop documents (Suc i) vs (ef, ?rs, es, fl) =
        Returned (ef \<or> (\<exists>v\<in>set vs. \<not> Added v), take (Suc i) ?rs @ map Added vs, es',
                 fl @ map fst (filter (\<lambda>(d, v). \<not> Added v) (zip (drop (Suc i) documents) vs)))"
      and mp: "\<forall>k. map_of es' k =
           (if int (Suc i) \<le> k \<and> k < int (Suc i + length vs) \<and> \<not> Added (vs ! (nat k - Suc i))
            then Some (addResult.Error (vs ! (nat k - Suc i))) else map_of es k)"
      by blast
    have "\<forall>k. map_of es' k =
           (if int i \<le> k \<and> k < int (i + length (v # vs)) \<and> \<not> Added ((v # vs) ! (nat k - i))
            then Some (addResult.Error ((v # vs) ! (nat k - i))) else map_of es k)"
    proof
      fix k show "map_of es' k =
           (if int i \<le> k \<and> k < int (i + length (v # vs)) \<and> \<not> Added ((v # vs) ! (nat k - i))
            then Some (addResult.Error ((v # vs) ! (nat k - i))) else map_of es k)"
      proof (cases "k = int i")
        case True
        then show ?thesis using mp \<open>Added v\<close> by simp
      next
        case False
        then have "int i \<le> k \<Longrightarrow> nat k - i = Suc (nat k - Suc i)" by linarith
        then show ?thesis using mp False by (auto simp: nth_Cons')
      qed
    qed
    then show ?thesis using st True i dr by (simp add: take_Suc_update)
  next
    case False
    from Cons.IH [OF len, of True "AList.update (int i) (addResult.Error v) es" "fl @ [documents ! i]"]
    obtain es' where
      st: "newBatchResults_loop documents (Suc i) vs
             (True, ?rs, AList.update (int i) (addResult.Error v) es, fl @ [documents ! i]) =
        Returned (True \<or> (\<exists>v\<in>set vs. \<not> Added v), take (Suc i) ?rs @ map Added vs, es',
                 (fl @ [documents ! i]) @ map fst (filter (\<lambda>(d, v). \<not> Added v) (zip (drop (Suc i) documents) vs)))"
      and mp: "\<forall>k. map_of es' k =
           (if int (Suc i) \<le> k \<and> k < int (Suc i + length vs) \<and> \<not> Added (vs ! (nat k - Suc i))
            then Some (addResult.Error (vs ! (nat k - Suc i)))
            else map_of (AList.update (int i) (addResult.Error v) es) k)"
      by blast
    have "\<forall>k. map_of es' k =
           (if int i \<le> k \<and> k < int (i + length (v # vs)) \<and> \<not> Added ((v # vs) ! (nat k - i))
            then Some (addResult.Error ((v # vs) ! (nat k - i))) else map_of es k)"
    proof
      fix k show "map_of es' k =
           (if int i \<le> k \<and> k < int (i + length (v # vs)) \<and> \<not> Added ((v # vs) ! (nat k - i))
            then Some (addResult.Error ((v # vs) ! (nat k - i))) else map_of es k)"
      proof (cases "k = int i")
        case True
        then show ?thesis using mp \<open>\<not> Added v\<close> by (simp add: update_conv')
      next
        case False
        then have "int i \<le> k \<Longrightarrow> nat k - i = Suc (nat k - Suc i)" by linarith
        then show ?thesis using mp False by (auto simp: nth_Cons' update_conv')
      qed
    qed
    then show ?thesis using st False i dr by (simp add: take_Suc_update)
  qed
qed

lemma newBulkResults_loop_closed:
  "i + length vs = length documentIds \<Longrightarrow> length rs = length documentIds \<Longrightarrow>
   \<exists>es'. newBulkResults_loop documentIds i vs (ef, rs, es, fl) =
       Returned (ef \<or> (\<exists>v\<in>set vs. \<not> Deleted v), take i rs @ map Deleted vs, es',
                 fl @ map fst (filter (\<lambda>(d, v). \<not> Deleted v) (zip (drop i documentIds) vs)))
     \<and> (\<forall>k. map_of es' k =
           (if int i \<le> k \<and> k < int (i + length vs) \<and> \<not> Deleted (vs ! (nat k - i))
            then Some (deleteResult.Error (vs ! (nat k - i))) else map_of es k))"
proof (induction vs arbitrary: i ef rs es fl)
  case Nil
  then show ?case by auto
next
  case (Cons v vs)
  have i: "i < length documentIds" "i < length rs" using Cons.prems by simp_all
  have dr: "drop i documentIds = documentIds ! i # drop (Suc i) documentIds"
    using i by (simp add: Cons_nth_drop_Suc)
  let ?rs = "rs[i := Deleted v]"
  have len: "Suc i + length vs = length documentIds" "length ?rs = length documentIds"
    using Cons.prems by simp_all
  show ?case
  proof (cases "Deleted v")
    case True
    from Cons.IH [OF len, of ef es fl] obtain es' where
      st: "newBulkResults_loop documentIds (Suc i) vs (ef, ?rs, es, fl) =
        Returned (ef \<or> (\<exists>v\<in>set vs. \<not> Deleted v), take (Suc i) ?rs @ map Deleted vs, es',
                 fl @ map fst (filter (\<lambda>(d, v). \<not> Deleted v) (zip (drop (Suc i) documentIds) vs)))"
      and mp: "\<forall>k. map_of es' k =
           (if int (Suc i) \<le> k \<and> k < int (Suc i + length vs) \<and> \<not> Deleted (vs ! (nat k - Suc i))
            then Some (deleteResult.Error (vs ! (nat k - Suc i))) else map_of es k)"
      by blast
    have "\<forall>k. map_of es' k =
           (if int i \<le> k \<and> k < int (i + length (v # vs)) \<and> \<not> Deleted ((v # vs) ! (nat k - i))
            then Some (deleteResult.Error ((v # vs) ! (nat k - i))) else map_of es k)"
    proof
      fix k show "map_of es' k =
           (if int i \<le> k \<and> k < int (i + length (v # vs)) \<and> \<not> Deleted ((v # vs) ! (nat k - i))
            then Some (deleteResult.Error ((v # vs) ! (nat k - i))) else map_of es k)"
      proof (cases "k = int i")
        case True
        then show ?thesis using mp \<open>Deleted v\<close> by simp
      next
        case False
        then have "int i \<le> k \<Longrightarrow> nat k - i = Suc (nat k - Suc i)" by linarith
        then show ?thesis using mp False by (auto simp: nth_Cons')
      qed
    qed
    then show ?thesis using st True i dr by (simp add: take_Suc_update)
  next
    case False
    from Cons.IH [OF len, of True "AList.update (int i) (deleteResult.Error v) es" "fl @ [documentIds ! i]"]
    obtain es' where
      st: "newBulkResults_loop documentIds (Suc i) vs
             (True, ?rs, AList.update (int i) (deleteResult.Error v) es, fl @ [documentIds ! i]) =
        Returned (True \<or> (\<exists>v\<in>set vs. \<not> Deleted v), take (Suc i) ?rs @ map Deleted vs, es',
                 (fl @ [documentIds ! i]) @ map fst (filter (\<lambda>(d, v). \<not> Deleted v) (zip (drop (Suc i) documentIds) vs)))"
      and mp: "\<forall>k. map_of es' k =
           (if int (Suc i) \<le> k \<and> k < int (Suc i + length vs) \<and> \<not> Deleted (vs ! (nat k - Suc i))
            then Some (deleteResult.Error (vs ! (nat k - Suc i)))
            else map_of (AList.update (int i) (deleteResult.Error v) es) k)"
      by blast
    have "\<forall>k. map_of es' k =
           (if int i \<le> k \<and> k < int (i + length (v # vs)) \<and> \<not> Deleted ((v # vs) ! (nat k - i))
            then Some (deleteResult.Error ((v # vs) ! (nat k - i))) else map_of es k)"
    proof
      fix k show "map_of es' k =
           (if int i \<le> k \<and> k < int (i + length (v # vs)) \<and> \<not> Deleted ((v # vs) ! (nat k - i))
            then Some (deleteResult.Error ((v # vs) ! (nat k - i))) else map_of es k)"
      proof (cases "k = int i")
        case True
        then show ?thesis using mp \<open>\<not> Deleted v\<close> by (simp add: update_conv')
      next
        case False
        then have "int i \<le> k \<Longrightarrow> nat k - i = Suc (nat k - Suc i)" by linarith
        then show ?thesis using mp False by (auto simp: nth_Cons' update_conv')
      qed
    qed
    then show ?thesis using st False i dr by (simp add: take_Suc_update)
  qed
qed


text \<open>
  C1. For N submitted documents (resp. document ids) and N outcome records the correlator
  returns a result object, and on it: \<open>HasErrors\<close> holds iff some outcome is unsuccessful;
  \<open>GetFailedDocuments\<close> (resp. \<open>GetFailedDocids\<close>) is the list of the inputs whose outcome
  is unsuccessful, in their original order; and at every position \<open>i < N\<close>,
  \<open>GetResult\<close> is outcome \<open>i\<close>'s success flag, \<open>GetDocument\<close> / \<open>GetDocid\<close> is input \<open>i\<close>,
  and \<open>GetErrorMessage\<close> is the outcome's error string with \<open>ok = true\<close> for a failed item
  and \<open>ok = false\<close> (with the empty string) for a successful one.
\<close>

theorem batch_results_correlate:
  "(length documents = length r \<longrightarrow>
      (\<exists>b. newBatchResults documents r = Returned b
         \<and> HasErrors b = (\<exists>v\<in>set r. \<not> Added v)
         \<and> GetFailedDocuments b = map fst (filter (\<lambda>(x, v). \<not> Added v) (zip documents r))
         \<and> (\<forall>i<length r.
               GetResult b (int i) = Returned (Added (r ! i))
             \<and> GetDocument b (int i) = Returned (documents ! i)
             \<and> GetErrorMessage b (int i) =
                 (if Added (r ! i) then ('''', False) else (addResult.Error (r ! i), True)))))
   \<and> (length documentIds = length d \<longrightarrow>
      (\<exists>b. newBulkResults documentIds d = Returned b
         \<and> HasErrors_delete b = (\<exists>v\<in>set d. \<not> Deleted v)
         \<and> GetFailedDocids b = map fst (filter (\<lambda>(x, v). \<not> Deleted v) (zip documentIds d))
         \<and> (\<forall>i<length d.
               GetResult_delete b (int i) = Returned (Deleted (d ! i))
             \<and> GetDocid b (int i) = Returned (documentIds ! i)
             \<and> GetErrorMessage_delete b (int i) =
                 (if Deleted (d ! i) then ('''', False) else (deleteResult.Error (d ! i), True)))))"
proof (intro conjI impI)
  assume len: "length documents = length r"
  from newBatchResults_loop_closed [of 0 r documents "replicate (length documents) False" False "[]" "[]"] len
  obtain es' where
    st: "newBatchResults_loop documents 0 r (False, replicate (length documents) False, [], []) =
       Returned (\<exists>v\<in>set r. \<not> Added v, map Added r, es',
                 map fst (filter (\<lambda>(x, v). \<not> Added v) (zip documents r)))"
    and mp: "\<forall>k. map_of es' k =
           (if 0 \<le> k \<and> k < int (length r) \<and> \<not> Added (r ! nat k)
            then Some (addResult.Error (r ! nat k)) else None)"
    by auto
  let ?b = "\<lparr> addResults.hasErrors = (\<exists>v\<in>set r. \<not> Added v), addResults.results = map Added r,
             addResults.errors = es', addResults.elements = documents,
             addResults.failed = map fst (filter (\<lambda>(x, v). \<not> Added v) (zip documents r)) \<rparr>"
  have ret: "newBatchResults documents r = Returned ?b"
    using len st by (simp add: newBatchResults_def)
  have pos: "\<forall>i<length r.
               GetResult ?b (int i) = Returned (Added (r ! i))
             \<and> GetDocument ?b (int i) = Returned (documents ! i)
             \<and> GetErrorMessage ?b (int i) =
                 (if Added (r ! i) then ('''', False) else (addResult.Error (r ! i), True))"
    using len mp
    by (simp add: GetResult_def GetDocument_def GetErrorMessage_def index_slice_def lookup_string_def)
  show "\<exists>b. newBatchResults documents r = Returned b
         \<and> HasErrors b = (\<exists>v\<in>set r. \<not> Added v)
         \<and> GetFailedDocuments b = map fst (filter (\<lambda>(x, v). \<not> Added v) (zip documents r))
         \<and> (\<forall>i<length r.
               GetResult b (int i) = Returned (Added (r ! i))
             \<and> GetDocument b (int i) = Returned (documents ! i)
             \<and> GetErrorMessage b (int i) =
                 (if Added (r ! i) then ('''', False) else (addResult.Error (r ! i), True)))"
    using ret pos by (intro exI [of _ ?b]) (simp add: HasErrors_def GetFailedDocuments_def)
next
  assume len: "length documentIds = length d"
  from newBulkResults_loop_closed [of 0 d documentIds "replicate (length documentIds) False" False "[]" "[]"] len
  obtain es' where
    st: "newBulkResults_loop documentIds 0 d (False, replicate (length documentIds) False, [], []) =
       Returned (\<exists>v\<in>set d. \<not> Deleted v, map Deleted d, es',
                 map fst (filter (\<lambda>(x, v). \<not> Deleted v) (zip documentIds d)))"
    and mp: "\<forall>k. map_of es' k =
           (if 0 \<le> k \<and> k < int (length d) \<and> \<not> Deleted (d ! nat k)
            then Some (deleteResult.Error (d ! nat k)) else None)"
    by auto
  let ?b = "\<lparr> deleteResults.hasErrors = (\<exists>v\<in>set d. \<not> Deleted v), deleteResults.results = map Deleted d,
             deleteResults.errors = es', deleteResults.elements = documentIds,
             deleteResults.failed = map fst (filter (\<lambda>(x, v). \<not> Deleted v) (zip documentIds d)) \<rparr>"
  have ret: "newBulkResults documentIds d = Returned ?b"
    using len st by (simp add: newBulkResults_def)
  have pos: "\<forall>i<length d.
               GetResult_delete ?b (int i) = Returned (Deleted (d ! i))
             \<and> GetDocid ?b (int i) = Returned (documentIds ! i)
             \<and> GetErrorMessage_delete ?b (int i) =
                 (if Deleted (d ! i) then ('''', False) else (deleteResult.Error (d ! i), True))"
    using len mp
    by (simp add: GetResult_delete_def GetDocid_def GetErrorMessage_delete_def index_slice_def lookup_string_def)
  show "\<exists>b. newBulkResults documentIds d = Returned b
         \<and> HasErrors_delete b = (\<exists>v\<in>set d. \<not> Deleted v)
         \<and> GetFailedDocids b = map fst (filter (\<lambda>(x, v). \<not> Deleted v) (zip documentIds d))
         \<and> (\<forall>i<length d.
               GetResult_delete b (int i) = Returned (Deleted (d ! i))
             \<and> GetDocid b (int i) = Returned (documentIds ! i)
             \<and> GetErrorMessage_delete b (int i) =
                 (if Deleted (d ! i) then ('''', False) else (deleteResult.Error (d ! i), True)))"
    using ret pos by (intro exI [of _ ?b]) (simp add: HasErrors_delete_def GetFailedDocids_def)
qed

theorem batch_results_correlate_witness:
  "(\<exists>b. newBatchResults [sample_doc ''a'', sample_doc ''b'', sample_doc ''c'']
           [\<lparr>Added = False, addResult.Error = ''bad a''\<rparr>, \<lparr>Added = True, addResult.Error = ''''\<rparr>,
            \<lparr>Added = False, addResult.Error = ''bad c''\<rparr>] = Returned b
       \<and> HasErrors b \<and> GetFailedDocuments b = [sample_doc ''a'', sample_doc ''c'']
       \<and> GetResult b 1 = Returned True \<and> GetDocument b 2 = Returned (sample_doc ''c'')
       \<and> GetErrorMessage b 2 = (''bad c'', True) \<and> GetErrorMessage b 1 = ('''', False))
   \<and> (\<exists>b. newBulkResults [''a'', ''b'']
           [\<lparr>Deleted = True, deleteResult.Error = ''''\<rparr>, \<lparr>Deleted = False, deleteResult.Error = ''gone''\<rparr>]
           = Returned b
       \<and> HasErrors_delete b \<and> GetFailedDocids b = [''b'']
       \<and> GetResult_delete b 0 = Returned True \<and> GetDocid b 1 = Returned ''b''
       \<and> GetErrorMessage_delete b 1 = (''gone'', True) \<and> GetErrorMessage_delete b 0 = ('''', False))"
  using batch_results_correlate [of "[sample_doc ''a'', sample_doc ''b'', sample_doc ''c'']"
    "[\<lparr>Added = False, addResult.Error = ''bad a''\<rparr>, \<lparr>Added = True, addResult.Error = ''''\<rparr>,
            \<lparr>Added = False, addResult.Error = ''bad c''\<rparr>]" "[''a'', ''b'']"
    "[\<lparr>Deleted = True, deleteResult.Error = ''''\<rparr>, \<lparr>Deleted = False, deleteResult.Error = ''gone''\<rparr>]"]
  by (simp add: All_less_Suc2 numeral_3_eq_3 numeral_2_eq_2) blast

section \<open>Verification: the query builder\<close>

subsection \<open>Visiting orders are the permutations\<close>

lemma set_insert_everywhere:
  "set (insert_everywhere x ys) = {us @ x # vs | us vs. ys = us @ vs}"
proof (induction ys)
  case Nil
  then show ?case by simp
next
  case (Cons y ys)
  show ?case
  proof (intro set_eqI iffI)
    fix zs assume "zs \<in> set (insert_everywhere x (y # ys))"
    then consider "zs = x # y # ys" | ws where "ws \<in> set (insert_everywhere x ys)" "zs = y # ws"
      by auto
    then show "zs \<in> {us @ x # vs | us vs. y # ys = us @ vs}"
    proof cases
      case 1
      then have "zs = [] @ x # (y # ys)" "y # ys = [] @ (y # ys)" by simp_all
      then show ?thesis by blast
    next
      case 2
      then obtain us vs where "ws = us @ x # vs" "ys = us @ vs" using Cons.IH by auto
      then have "zs = (y # us) @ x # vs" "y # ys = (y # us) @ vs" using 2 by simp_all
      then show ?thesis by blast
    qed
  next
    fix zs assume "zs \<in> {us @ x # vs | us vs. y # ys = us @ vs}"
    then obtain us vs where z: "zs = us @ x # vs" "y # ys = us @ vs" by blast
    show "zs \<in> set (insert_everywhere x (y # ys))"
    proof (cases us)
      case Nil
      then have "zs = x # y # ys" using z by simp
      then show ?thesis by simp
    next
      case (Cons u us')
      then have "u = y" "ys = us' @ vs" using z by simp_all
      then have "us' @ x # vs \<in> set (insert_everywhere x ys)" using Cons.IH by blast
      then show ?thesis using z Cons \<open>u = y\<close> by simp
    qed
  qed
qed

lemma set_range_orders: "set (range_orders m) = {es. mset es = mset m}"
proof (induction m)
  case Nil
  then show ?case by simp
next
  case (Cons e m)
  show ?case
  proof (intro set_eqI iffI)
    fix es assume "es \<in> set (range_orders (e # m))"
    then obtain ws where "ws \<in> set (range_orders m)" "es \<in> set (insert_everywhere e ws)"
      by auto
    then show "es \<in> {es. mset es = mset (e # m)}"
      using Cons.IH by (auto simp: set_insert_everywhere)
  next
    fix es assume "es \<in> {es. mset es = mset (e # m)}"
    then have ms: "mset es = mset (e # m)" by simp
    then have "e \<in> set es" by (metis list.set_intros(1) mset_eq_setD)
    then obtain us vs where es: "es = us @ e # vs" by (auto dest: split_list)
    then have "mset (us @ vs) = mset m" using ms by simp
    then have "us @ vs \<in> set (range_orders m)" using Cons.IH by simp
    moreover have "es \<in> set (insert_everywhere e (us @ vs))"
      using es by (auto simp: set_insert_everywhere)
    ultimately show "es \<in> set (range_orders (e # m))" by auto
  qed
qed

lemma range_orders_self: "m \<in> set (range_orders m)"
  by (simp add: set_range_orders)

subsection \<open>\<open>Itoa\<close> is injective\<close>

lemma undigits_snoc: "undigits (cs @ [c]) = 10 * undigits cs + (of_char c - 48)"
  by (induction cs) (simp_all add: algebra_simps)

lemma digit_val: "d < 10 \<Longrightarrow> (of_char (''0123456789'' ! d) :: nat) - 48 = d"
proof -
  assume "d < 10"
  then consider "d = 0" | "d = 1" | "d = 2" | "d = 3" | "d = 4" | "d = 5" | "d = 6" | "d = 7"
    | "d = 8" | "d = 9" by atomize_elim arith
  then show ?thesis by cases simp_all
qed

lemma digit_not_minus: "d < 10 \<Longrightarrow> ''0123456789'' ! d \<noteq> CHR ''-''"
proof -
  assume "d < 10"
  then consider "d = 0" | "d = 1" | "d = 2" | "d = 3" | "d = 4" | "d = 5" | "d = 6" | "d = 7"
    | "d = 8" | "d = 9" by atomize_elim arith
  then show ?thesis by cases simp_all
qed

lemma undigits_digits: "undigits (digits n) = n"
proof (induction n rule: digits.induct)
  case (1 n)
  show ?case
  proof (cases "n < 10")
    case True
    then show ?thesis by (simp add: digits.simps [of n] digit_val)
  next
    case False
    then have "undigits (digits (n div 10)) = n div 10" using "1" by simp
    then show ?thesis using False
      by (simp add: digits.simps [of n] undigits_snoc digit_val)
  qed
qed

lemma digits_hd: "\<exists>c cs. digits n = c # cs \<and> c \<noteq> CHR ''-''"
proof (induction n rule: digits.induct)
  case (1 n)
  show ?case
  proof (cases "n < 10")
    case True
    then show ?thesis by (simp add: digits.simps [of n] digit_not_minus)
  next
    case False
    then obtain c cs where "digits (n div 10) = c # cs" "c \<noteq> CHR ''-''" using "1" by blast
    then show ?thesis using False by (simp add: digits.simps [of n])
  qed
qed

lemma digits_inj: "digits m = digits n \<Longrightarrow> m = n"
  by (metis undigits_digits)

lemma Itoa_inj: "Itoa i = Itoa j \<Longrightarrow> i = j"
proof -
  assume eq: "Itoa i = Itoa j"
  obtain c cs where a: "digits (nat \<bar>i\<bar>) = c # cs" "c \<noteq> CHR ''-''" using digits_hd by blast
  obtain d ds where b: "digits (nat \<bar>j\<bar>) = d # ds" "d \<noteq> CHR ''-''" using digits_hd by blast
  show "i = j"
  proof (cases "i < 0")
    case True
    then have j: "j < 0" using eq a b by (auto simp: Itoa_def abs_if split: if_splits)
    then have "digits (nat (- i)) = digits (nat (- j))" using eq True by (simp add: Itoa_def)
    then have "nat (- i) = nat (- j)" by (rule digits_inj)
    then show ?thesis using True j by linarith
  next
    case False
    then have j: "\<not> j < 0" using eq a b by (auto simp: Itoa_def abs_if split: if_splits)
    then have "digits (nat i) = digits (nat j)" using eq False by (simp add: Itoa_def)
    then have "nat i = nat j" by (rule digits_inj)
    then show ?thesis using False j by linarith
  qed
qed

subsection \<open>The serialisation loop\<close>

lemma toQueryString_loop_concat:
  "toQueryString_loop es s = s @ concat (map (\<lambda>e. segment e @ ''&'') es)"
  by (induction es arbitrary: s) (auto simp: segment_def)

lemma concat_amp_Join: "es \<noteq> [] \<Longrightarrow> concat (map (\<lambda>e. f e @ ''&'') es) = Join (map f es) ''&'' @ ''&''"
  by (induction es rule: induct_list012) simp_all

lemma toQueryString_in_Join:
  "es \<noteq> [] \<Longrightarrow> toQueryString_in es = Returned (Join (map segment es) ''&'')"
  by (simp add: toQueryString_in_def toQueryString_loop_concat concat_amp_Join)

subsection \<open>The parameter map does not depend on the visiting orders\<close>

lemma mset_eq_of_map_of:
  assumes "distinct (map fst xs)" "distinct (map fst ys)" "map_of xs = map_of ys"
  shows "mset xs = mset ys"
proof -
  have "set xs = set ys" using assms by (simp add: map_of_inject_set)
  moreover have "distinct xs" "distinct ys" using assms by (simp_all add: distinct_map)
  ultimately show ?thesis by (simp add: set_eq_iff_mset_eq_distinct)
qed

lemma map_of_perm:
  assumes "mset xs = mset ys" "distinct (map fst xs)"
  shows "map_of xs = map_of ys"
proof -
  have "mset (map fst xs) = mset (map fst ys)" using assms(1) by simp
  then have "distinct (map fst ys)" using assms(2) by (metis mset_eq_imp_distinct_iff)
  moreover have "set xs = set ys" using assms(1) by (rule mset_eq_setD)
  ultimately show ?thesis using assms(2) by (simp add: map_of_inject_set)
qed

lemma map_of_updates_pairs:
  "map_of (AList.updates (map fst kvs) (map snd kvs) p) = map_of p ++ map_of (rev kvs)"
  by (simp add: updates_conv' map_upds_def zip_map_fst_snd)

lemma map_of_updates_perm:
  assumes "mset kvs = mset kvs'" "distinct (map fst kvs)"
  shows "map_of (AList.updates (map fst kvs) (map snd kvs) p) =
         map_of (AList.updates (map fst kvs') (map snd kvs') p')
         \<longleftrightarrow> map_of p ++ map_of kvs = map_of p' ++ map_of kvs"
proof -
  have a: "map_of (rev kvs) = map_of kvs"
    by (rule map_of_perm [symmetric]) (use assms in simp_all)
  have b: "map_of (rev kvs') = map_of kvs"
    by (rule map_of_perm [symmetric]) (use assms in simp_all)
  show ?thesis by (simp add: map_of_updates_pairs a b)
qed

lemma vars_updates:
  "fst (ToQueryParams_vars lib kvs (p, s)) =
     AList.updates (map fst (map (\<lambda>(k, v). (''var'' @ Itoa k, Sprintf_f lib v)) kvs))
                   (map snd (map (\<lambda>(k, v). (''var'' @ Itoa k, Sprintf_f lib v)) kvs)) p"
  by (induction kvs arbitrary: p s) auto

lemma ranges_updates:
  "ToQueryParams_ranges prefix kvs p =
     AList.updates (map fst (map (\<lambda>(k, v). (prefix @ k, v)) kvs))
                   (map snd (map (\<lambda>(k, v). (prefix @ k, v)) kvs)) p"
  by (induction kvs arbitrary: p) auto

lemma distinct_var_keys:
  "distinct (map fst kvs) \<Longrightarrow>
   distinct (map fst (map (\<lambda>(k, v). (''var'' @ Itoa k, Sprintf_f lib v)) kvs))"
proof -
  assume d: "distinct (map fst kvs)"
  have "map fst (map (\<lambda>(k, v). (''var'' @ Itoa k, Sprintf_f lib v)) kvs)
        = map (\<lambda>k. ''var'' @ Itoa k) (map fst kvs)"
    by (simp add: case_prod_beta comp_def)
  moreover have "inj (\<lambda>k. ''var'' @ Itoa k)" by (auto simp: inj_def dest: Itoa_inj)
  ultimately show ?thesis using d by (simp add: distinct_map inj_on_subset [OF _ subset_UNIV] del: map_map)
qed

lemma distinct_range_keys:
  "distinct (map fst kvs) \<Longrightarrow> distinct (map fst (map (\<lambda>(k, v). (prefix @ k, v)) kvs))"
proof -
  assume d: "distinct (map fst kvs)"
  have "map fst (map (\<lambda>(k, v). (prefix @ k, v)) kvs) = map (\<lambda>k. prefix @ k) (map fst kvs)"
    by (simp add: case_prod_beta comp_def)
  moreover have "inj (\<lambda>k. prefix @ k)" by (auto simp: inj_def)
  ultimately show ?thesis using d by (simp add: distinct_map inj_on_subset [OF _ subset_UNIV] del: map_map)
qed

lemma distinct_formatRangeParam_loop:
  "distinct (map fst p) \<Longrightarrow> distinct (map fst (formatRangeParam_loop lib rs p))"
  by (induction rs arbitrary: p) (simp_all add: Let_def distinct_update)

lemma distinct_formatRangeParam: "distinct (map fst (formatRangeParam lib rs))"
  by (simp add: formatRangeParam_def distinct_formatRangeParam_loop)

lemma head_distinct: "distinct (map fst (fst (ToQueryParams_head q)))"
  by (simp add: ToQueryParams_head_def Let_def distinct_update)

lemma head_q: "map_of (fst (ToQueryParams_head q)) ''q'' = Some (queryString q)"
  by (simp add: ToQueryParams_head_def Let_def update_conv')

lemma head_len: "map_of (fst (ToQueryParams_head q)) ''len'' = Some (Itoa (length_q q))"
  by (simp add: ToQueryParams_head_def Let_def update_conv')

lemma flags_distinct:
  "distinct (map fst p) \<Longrightarrow> distinct (map fst (fst (ToQueryParams_flags lib q (p, s))))"
  by (simp add: ToQueryParams_flags_def Let_def distinct_update)

lemma flags_cong:
  "map_of p = map_of p' \<Longrightarrow>
   map_of (fst (ToQueryParams_flags lib q (p, s))) = map_of (fst (ToQueryParams_flags lib q (p', s')))"
  by (simp add: ToQueryParams_flags_def Let_def update_conv')

lemma flags_keep:
  "k \<notin> {''fetch_variables'', ''fetch_categories'', ''category_filters''} \<Longrightarrow>
   map_of (fst (ToQueryParams_flags lib q (p, s))) k = map_of p k"
  by (simp add: ToQueryParams_flags_def Let_def update_conv')

lemma updates_keep:
  "k \<notin> fst ` set kvs \<Longrightarrow> map_of (AList.updates (map fst kvs) (map snd kvs) p) k = map_of p k"
  by (simp add: map_of_updates_pairs map_add_def map_of_eq_None_iff [THEN iffD2] split: option.split)

lemma vars_updates':
  "fst (ToQueryParams_vars lib kvs ps) =
     AList.updates (map fst (map (\<lambda>(k, v). (''var'' @ Itoa k, Sprintf_f lib v)) kvs))
                   (map snd (map (\<lambda>(k, v). (''var'' @ Itoa k, Sprintf_f lib v)) kvs)) (fst ps)"
  by (cases ps) (simp only: vars_updates fst_conv)

lemma flags_distinct':
  "distinct (map fst (fst ps)) \<Longrightarrow> distinct (map fst (fst (ToQueryParams_flags lib q ps)))"
  by (cases ps) (simp add: flags_distinct)

lemma flags_cong':
  "map_of (fst ps) = map_of (fst ps') \<Longrightarrow>
   map_of (fst (ToQueryParams_flags lib q ps)) = map_of (fst (ToQueryParams_flags lib q ps'))"
  by (cases ps; cases ps') (simp add: flags_cong)

lemma flags_keep':
  "k \<notin> {''fetch_variables'', ''fetch_categories'', ''category_filters''} \<Longrightarrow>
   map_of (fst (ToQueryParams_flags lib q ps)) k = map_of (fst ps) k"
  using flags_keep [of k lib q "fst ps" "snd ps"] by simp

lemma build_unfold:
  "ToQueryParams_build lib q vars docvars functions =
     (if functionFilters q \<noteq> [] then ToQueryParams_ranges ''filter_function'' functions else id)
       ((if docvarFilters q \<noteq> [] then ToQueryParams_ranges ''filter_docvar'' docvars else id)
          (fst (ToQueryParams_flags lib q
             (if vars \<noteq> [] then ToQueryParams_vars lib vars (ToQueryParams_head q)
              else ToQueryParams_head q))))"
  by (simp add: ToQueryParams_build_def Let_def case_prod_beta)

lemma build_distinct: "distinct (map fst (ToQueryParams_build lib q vars docvars functions))"
proof -
  have 1: "distinct (map fst (fst (if vars \<noteq> [] then ToQueryParams_vars lib vars (ToQueryParams_head q)
              else ToQueryParams_head q)))"
  proof (cases "vars = []")
    case True
    then show ?thesis by (simp add: head_distinct)
  next
    case False
    then show ?thesis
      by (simp only: False not_False_eq_True if_True vars_updates' distinct_updates head_distinct)
  qed
  have 2: "distinct (map fst p) \<Longrightarrow> distinct (map fst ((if c then ToQueryParams_ranges pre kvs else id) p))"
    for p c pre kvs
    by (cases c) (simp_all only: ranges_updates distinct_updates if_True if_False id_apply)
  show ?thesis unfolding build_unfold by (intro 2 flags_distinct' 1)
qed

lemma build_perm:
  assumes "mset vars = mset vars'" "distinct (map fst vars)"
    and "mset docvars = mset docvars'" "distinct (map fst docvars)"
    and "mset functions = mset functions'" "distinct (map fst functions)"
  shows "map_of (ToQueryParams_build lib q vars docvars functions) =
         map_of (ToQueryParams_build lib q vars' docvars' functions')"
proof -
  let ?V = "\<lambda>kvs. map (\<lambda>(k, v). (''var'' @ Itoa k, Sprintf_f lib v)) kvs"
  let ?R = "\<lambda>prefix kvs. map (\<lambda>(k, v). (prefix @ k, v)) kvs :: (string \<times> string) list"
  have e: "(vars = []) = (vars' = [])" using assms(1) by (metis mset_zero_iff)
  have v: "mset (?V vars) = mset (?V vars')" using assms(1) by simp
  have d: "mset (?R ''filter_docvar'' docvars) = mset (?R ''filter_docvar'' docvars')"
    using assms(3) by simp
  have f: "mset (?R ''filter_function'' functions) = mset (?R ''filter_function'' functions')"
    using assms(5) by simp
  note dv = distinct_var_keys [OF assms(2), of lib]
  note dd = distinct_range_keys [OF assms(4), of "''filter_docvar''"]
  note df = distinct_range_keys [OF assms(6), of "''filter_function''"]
  have 1: "map_of (fst (if vars \<noteq> [] then ToQueryParams_vars lib vars (ToQueryParams_head q)
              else ToQueryParams_head q)) =
           map_of (fst (if vars' \<noteq> [] then ToQueryParams_vars lib vars' (ToQueryParams_head q)
              else ToQueryParams_head q))"
  proof (cases "vars = []")
    case True
    then show ?thesis using e by simp
  next
    case False
    then have "vars' \<noteq> []" using e by simp
    then show ?thesis using False
      by (simp only: vars_updates' map_of_updates_perm [OF v dv] if_True not_False_eq_True)
  qed
  have 2: "map_of p = map_of p' \<Longrightarrow>
       map_of ((if c then ToQueryParams_ranges ''filter_docvar'' docvars else id) p)
     = map_of ((if c then ToQueryParams_ranges ''filter_docvar'' docvars' else id) p')" for p p' c
    by (cases c) (simp_all only: ranges_updates map_of_updates_perm [OF d dd] if_True if_False id_apply)
  have 3: "map_of p = map_of p' \<Longrightarrow>
       map_of ((if c then ToQueryParams_ranges ''filter_function'' functions else id) p)
     = map_of ((if c then ToQueryParams_ranges ''filter_function'' functions' else id) p')" for p p' c
    by (cases c) (simp_all only: ranges_updates map_of_updates_perm [OF f df] if_True if_False id_apply)
  show ?thesis unfolding build_unfold by (intro 3 2 flags_cong' 1)
qed

lemma var_key_not: "k \<noteq> [] \<Longrightarrow> hd k \<noteq> CHR ''v'' \<Longrightarrow>
    k \<notin> fst ` set (map (\<lambda>(k, v). (''var'' @ Itoa k, Sprintf_f lib v)) kvs)"
  by auto

lemma range_key_not: "k \<noteq> [] \<Longrightarrow> pre \<noteq> [] \<Longrightarrow> hd k \<noteq> hd pre \<Longrightarrow>
    k \<notin> fst ` set (map (\<lambda>(k, v). (pre @ k, v)) kvs)"
  by auto

lemma build_keep:
  assumes "k \<noteq> []" "hd k \<noteq> CHR ''v''" "hd k \<noteq> CHR ''f''" "k \<noteq> ''category_filters''"
  shows "map_of (ToQueryParams_build lib q vars docvars functions) k = map_of (fst (ToQueryParams_head q)) k"
proof -
  have k: "k \<notin> {''fetch_variables'', ''fetch_categories'', ''category_filters''}"
    using assms by auto
  have 1: "map_of (fst (if vars \<noteq> [] then ToQueryParams_vars lib vars (ToQueryParams_head q)
              else ToQueryParams_head q)) k = map_of (fst (ToQueryParams_head q)) k"
  proof (cases "vars = []")
    case True
    then show ?thesis by simp
  next
    case False
    then show ?thesis
      by (simp only: False not_False_eq_True if_True vars_updates'
            updates_keep [OF var_key_not [OF assms(1,2)]])
  qed
  have "hd k \<noteq> hd ''filter_docvar''" "hd k \<noteq> hd ''filter_function''" "''filter_docvar'' \<noteq> []"
    "''filter_function'' \<noteq> []"
    using assms(3) by simp_all
  note r = range_key_not [OF assms(1) this(3) this(1)] range_key_not [OF assms(1) this(4) this(2)]
  have 2: "map_of ((if c then ToQueryParams_ranges ''filter_docvar'' kvs else id) p) k = map_of p k" for p c kvs
    by (cases c) (simp_all only: ranges_updates updates_keep [OF r(1)] if_True if_False id_apply)
  have 3: "map_of ((if c then ToQueryParams_ranges ''filter_function'' kvs else id) p) k = map_of p k" for p c kvs
    by (cases c) (simp_all only: ranges_updates updates_keep [OF r(2)] if_True if_False id_apply)
  show ?thesis unfolding build_unfold by (simp only: 3 2 flags_keep' [OF k] 1)
qed

lemma build_q: "map_of (ToQueryParams_build lib q vars docvars functions) ''q'' = Some (queryString q)"
  by (simp add: build_keep head_q)

lemma build_len: "map_of (ToQueryParams_build lib q vars docvars functions) ''len'' = Some (Itoa (length_q q))"
  by (simp add: build_keep head_len)

lemma set_ToQueryParams_params:
  "set (ToQueryParams_params lib q) =
     {ToQueryParams_build lib q vs ds fs | vs ds fs.
        mset vs = mset (entries (queryVariables q))
      \<and> mset ds = mset (formatRangeParam lib (docvarFilters q))
      \<and> mset fs = mset (formatRangeParam lib (functionFilters q))}"
  unfolding ToQueryParams_params_def by (auto simp: set_range_orders)

lemma set_toQueryString_Some:
  "set (toQueryString (Some p)) = toQueryString_in ` {es. mset es = mset p}"
  by (simp add: toQueryString_def set_range_orders)

lemma segment_eq: "segment = (\<lambda>(k, v). k @ ''='' @ QueryEscape v)"
  by (auto simp: segment_def fun_eq_iff)

lemma ToQueryParams_outcomes_aux:
  fixes lib :: stdlib and q :: queryState
  assumes "distinct (map fst (entries (queryVariables q)))"
  defines "P \<equiv> ToQueryParams_build lib q (entries (queryVariables q))
                 (formatRangeParam lib (docvarFilters q)) (formatRangeParam lib (functionFilters q))"
  shows "set (ToQueryParams lib q) = {Returned (Join (map segment es) ''&'') | es. mset es = mset P}"
proof -
  have P_in: "P \<in> set (ToQueryParams_params lib q)"
    unfolding set_ToQueryParams_params P_def by blast
  have same: "mset p = mset P" if "p \<in> set (ToQueryParams_params lib q)" for p
  proof -
    from that obtain vs ds fs where p: "p = ToQueryParams_build lib q vs ds fs"
      and vs: "mset vs = mset (entries (queryVariables q))"
      and ds: "mset ds = mset (formatRangeParam lib (docvarFilters q))"
      and fs: "mset fs = mset (formatRangeParam lib (functionFilters q))"
      unfolding set_ToQueryParams_params by blast
    have "map_of P = map_of p"
      unfolding P_def p
      by (rule build_perm [OF vs [symmetric] assms(1) ds [symmetric] distinct_formatRangeParam
            fs [symmetric] distinct_formatRangeParam])
    then have "map_of p = map_of P" by simp
    then show ?thesis
      unfolding p P_def by (intro mset_eq_of_map_of build_distinct)
  qed
  have "map_of P ''q'' \<noteq> None" unfolding P_def by (simp only: build_q) simp
  then have "P \<noteq> []" by (cases P) simp_all
  then have ne: "es \<noteq> []" if "mset es = mset P" for es using that by (metis mset_zero_iff)
  have "set (ToQueryParams lib q) = (\<Union>p \<in> set (ToQueryParams_params lib q). toQueryString_in ` {es. mset es = mset p})"
    unfolding ToQueryParams_def by (simp only: set_concat set_map image_image set_toQueryString_Some)
  also have "\<dots> = (\<Union>p \<in> set (ToQueryParams_params lib q). toQueryString_in ` {es. mset es = mset P})"
    using same by simp
  also have "\<dots> = toQueryString_in ` {es. mset es = mset P}"
    using P_in by blast
  also have "\<dots> = {Returned (Join (map segment es) ''&'') | es. mset es = mset P}"
  proof (intro set_eqI iffI)
    fix x assume "x \<in> toQueryString_in ` {es. mset es = mset P}"
    then obtain es where "mset es = mset P" "x = toQueryString_in es" by blast
    then show "x \<in> {Returned (Join (map segment es) ''&'') | es. mset es = mset P}"
      using ne [of es] toQueryString_in_Join [of es] by blast
  next
    fix x assume "x \<in> {Returned (Join (map segment es) ''&'') | es. mset es = mset P}"
    then obtain es where "mset es = mset P" "x = Returned (Join (map segment es) ''&'')" by blast
    then show "x \<in> toQueryString_in ` {es. mset es = mset P}"
      using ne [of es] toQueryString_in_Join [of es] by (simp add: image_iff) metis
  qed
  finally show ?thesis .
qed

lemma Itoa_10: "Itoa 10 = ''10''"
  by (simp add: Itoa_def digits.simps)

lemma QueryForString_params:
  "ToQueryParams_params lib (QueryForString s) = [[(''q'', s), (''len'', ''10'')]]"
  by (simp add: ToQueryParams_params_def ToQueryParams_build_def QueryForString_def
      ToQueryParams_head_def ToQueryParams_flags_def formatRangeParam_def entries_def Itoa_10)

lemma QueryEscape_golang: "QueryEscape ''golang'' = ''golang''"
  by (simp add: shouldEscape_def)

text \<open>
  C4 (amended). For a builder whose variable map has distinct keys (as every Go map has),
  every call of \<open>ToQueryParams\<close> returns, and the strings it can return are exactly the
  \<open>&\<close>-joined \<open>key=escaped value\<close> texts of one parameter list \<open>P\<close> taken in any order:
  two calls serialise the same parameters, possibly in a different order. \<open>P\<close> has
  distinct keys and always holds \<open>q\<close> (the query text) and \<open>len\<close> (the result count).
\<close>

theorem ToQueryParams_same_parameters:
  assumes "distinct (map fst (entries (queryVariables q)))"
  shows "\<exists>P. distinct (map fst P)
           \<and> map_of P ''q'' = Some (queryString q)
           \<and> map_of P ''len'' = Some (Itoa (length_q q))
           \<and> set (ToQueryParams lib q) =
               {Returned (Join (map (\<lambda>(k, v). k @ ''='' @ QueryEscape v) es) ''&'') | es. mset es = mset P}"
proof -
  let ?P = "ToQueryParams_build lib q (entries (queryVariables q))
                 (formatRangeParam lib (docvarFilters q)) (formatRangeParam lib (functionFilters q))"
  have "distinct (map fst ?P)" by (rule build_distinct)
  moreover have "map_of ?P ''q'' = Some (queryString q)" by (rule build_q)
  moreover have "map_of ?P ''len'' = Some (Itoa (length_q q))" by (rule build_len)
  moreover have "set (ToQueryParams lib q) =
               {Returned (Join (map (\<lambda>(k, v). k @ ''='' @ QueryEscape v) es) ''&'') | es. mset es = mset ?P}"
    using ToQueryParams_outcomes_aux [OF assms, of lib] by (simp only: segment_eq)
  ultimately show ?thesis by (intro exI [of _ ?P] conjI)
qed

theorem ToQueryParams_same_parameters_witness:
  "distinct (map fst (entries (queryVariables (Start 5 (QueryForString ''a b'')))))
   \<and> (\<exists>P. distinct (map fst P)
         \<and> map_of P ''q'' = Some ''a b''
         \<and> map_of P ''len'' = Some ''10''
         \<and> set (ToQueryParams sample_lib (Start 5 (QueryForString ''a b''))) =
             {Returned (Join (map (\<lambda>(k, v). k @ ''='' @ QueryEscape v) es) ''&'') | es. mset es = mset P})"
proof -
  have d: "distinct (map fst (entries (queryVariables (Start 5 (QueryForString ''a b'')))))"
    by (simp add: Start_def QueryForString_def entries_def)
  have e: "queryString (Start 5 (QueryForString ''a b'')) = ''a b''"
    "Itoa (length_q (Start 5 (QueryForString ''a b''))) = ''10''"
    by (simp_all add: Start_def QueryForString_def Itoa_10)
  show ?thesis
    using d ToQueryParams_same_parameters [OF d, of sample_lib] unfolding e by blast
qed

theorem ToQueryParams_order_counterexample:
  "Returned ''q=a&len=10'' \<in> set (ToQueryParams sample_lib (QueryForString ''a''))
   \<and> Returned ''len=10&q=a'' \<in> set (ToQueryParams sample_lib (QueryForString ''a''))
   \<and> ''q=a&len=10'' \<noteq> ''len=10&q=a''"
  by code_simp

text \<open>
  C5 (amended). For a query built by \<open>QueryForString\<close> with no setter called,
  \<open>ToQueryParams\<close> returns \<open>q=<escaped text>&len=10\<close> or \<open>len=10&q=<escaped text>\<close>, and
  nothing else: the two parameters come in either order, and there is no \<open>start\<close> and no
  \<open>function\<close> parameter.
\<close>

theorem QueryForString_ToQueryParams:
  "set (ToQueryParams lib (QueryForString s)) =
     {Returned (''q='' @ QueryEscape s @ ''&len=10''), Returned (''len=10&q='' @ QueryEscape s)}"
proof -
  have "ToQueryParams lib (QueryForString s) =
     [toQueryString_in [(''q'', s), (''len'', ''10'')], toQueryString_in [(''len'', ''10''), (''q'', s)]]"
    by (simp add: ToQueryParams_def QueryForString_params toQueryString_def)
  then show ?thesis
    by (simp add: toQueryString_in_Join segment_def shouldEscape_def insert_commute)
qed

theorem QueryForString_ToQueryParams_witness:
  "set (ToQueryParams sample_lib (QueryForString ''golang'')) =
     {Returned ''q=golang&len=10'', Returned ''len=10&q=golang''}"
  using QueryForString_ToQueryParams [of sample_lib "''golang''", unfolded QueryEscape_golang]
  by simp

theorem QueryForString_ToQueryParams_counterexample:
  "Returned ''len=10&q=golang'' \<in> set (ToQueryParams sample_lib (QueryForString ''golang''))
   \<and> ''len=10&q=golang'' \<noteq> ''q=golang&len=10''"
  by code_simp

text \<open>
  C3 (the code at the failing input). \<open>formatRangeParam\<close> on two ranges for the same
  variable index yields one entry holding the second range only, and so the parameter
  map of \<open>ToQueryParams\<close> after two \<open>DocumentVariableFilter\<close> (resp. \<open>FunctionFilter\<close>)
  calls for one index holds \<open>filter_docvar<N>\<close> (resp. \<open>filter_function<N>\<close>) with the
  second range alone. With the ranges 1:2 and then 3:4 added for index 0,
  \<open>q=a&len=10&filter_docvar0=3%3A4\<close> is a string \<open>ToQueryParams\<close> returns.
\<close>

theorem formatRangeParam_keeps_last_range:
  "formatRangeParam lib [\<lparr>id_v = n, floor_v = a, ceil_v = b\<rparr>, \<lparr>id_v = n, floor_v = c, ceil_v = d\<rparr>]
     = [(Itoa n, FormatFloat_g lib c @ '':'' @ FormatFloat_g lib d)]
   \<and> ToQueryParams_params lib
        (DocumentVariableFilter n c d (DocumentVariableFilter n a b (QueryForString s)))
     = [[(''q'', s), (''len'', ''10''),
         (''filter_docvar'' @ Itoa n, FormatFloat_g lib c @ '':'' @ FormatFloat_g lib d)]]
   \<and> ToQueryParams_params lib
        (FunctionFilter n c d (FunctionFilter n a b (QueryForString s)))
     = [[(''q'', s), (''len'', ''10''),
         (''filter_function'' @ Itoa n, FormatFloat_g lib c @ '':'' @ FormatFloat_g lib d)]]
   \<and> Returned ''q=a&len=10&filter_docvar0=3%3A4'' \<in> set (ToQueryParams sample_lib
        (DocumentVariableFilter 0 0x4008000000000000 0x4010000000000000
          (DocumentVariableFilter 0 0x3FF0000000000000 0x4000000000000000 (QueryForString ''a''))))"
proof (intro conjI)
  show "formatRangeParam lib [\<lparr>id_v = n, floor_v = a, ceil_v = b\<rparr>, \<lparr>id_v = n, floor_v = c, ceil_v = d\<rparr>]
     = [(Itoa n, FormatFloat_g lib c @ '':'' @ FormatFloat_g lib d)]"
    by (simp add: formatRangeParam_def Let_def)
  show "ToQueryParams_params lib
        (DocumentVariableFilter n c d (DocumentVariableFilter n a b (QueryForString s)))
     = [[(''q'', s), (''len'', ''10''),
         (''filter_docvar'' @ Itoa n, FormatFloat_g lib c @ '':'' @ FormatFloat_g lib d)]]"
    by (simp add: ToQueryParams_params_def ToQueryParams_build_def QueryForString_def
        DocumentVariableFilter_def ToQueryParams_head_def ToQueryParams_flags_def
        formatRangeParam_def entries_def Itoa_10 Let_def)
  show "ToQueryParams_params lib
        (FunctionFilter n c d (FunctionFilter n a b (QueryForString s)))
     = [[(''q'', s), (''len'', ''10''),
         (''filter_function'' @ Itoa n, FormatFloat_g lib c @ '':'' @ FormatFloat_g lib d)]]"
    by (simp add: ToQueryParams_params_def ToQueryParams_build_def QueryForString_def
        FunctionFilter_def ToQueryParams_head_def ToQueryParams_flags_def
        formatRangeParam_def entries_def Itoa_10 Let_def)
qed code_simp

text \<open>
  C6 (the code at the failing input). The loop over the query variables stores
  \<open>fmt.Sprintf("%f", v)\<close> in the parameter map, and appends the shortest form
  \<open>strconv.FormatFloat(v, 'g', -1, 64)\<close> only to the string that is overwritten before
  the return, so the parameter map holds \<open>var<N>\<close> with the \<open>%f\<close> rendering. With
  variable 0 set to 1.5 (whose shortest form is \<open>1.5\<close>) the parameter is \<open>var0=1.500000\<close>.
\<close>

theorem ToQueryParams_vars_fixed_point:
  "ToQueryParams_vars lib [(k, v)] (params, s') =
     (AList.update (''var'' @ Itoa k) (Sprintf_f lib v) params,
      s' @ ''&var'' @ Itoa k @ ''='' @ FormatFloat_g lib v)
   \<and> QueryVariable k v (QueryForString s) =
       Returned ((QueryForString s)\<lparr>queryVariables := Some [(k, v)]\<rparr>)
   \<and> ToQueryParams_params lib ((QueryForString s)\<lparr>queryVariables := Some [(k, v)]\<rparr>)
       = [[(''q'', s), (''len'', ''10''), (''var'' @ Itoa k, Sprintf_f lib v)]]
   \<and> FormatFloat_g sample_lib 0x3FF8000000000000 = ''1.5''
   \<and> Returned ''q=a&len=10&var0=1.500000'' \<in> set (ToQueryParams sample_lib
         ((QueryForString ''a'')\<lparr>queryVariables := Some [(0, 0x3FF8000000000000)]\<rparr>))"
proof (intro conjI)
  show "ToQueryParams_vars lib [(k, v)] (params, s') =
     (AList.update (''var'' @ Itoa k) (Sprintf_f lib v) params,
      s' @ ''&var'' @ Itoa k @ ''='' @ FormatFloat_g lib v)"
    by simp
  show "QueryVariable k v (QueryForString s) =
       Returned ((QueryForString s)\<lparr>queryVariables := Some [(k, v)]\<rparr>)"
    by (simp add: QueryVariable_def QueryForString_def)
  show "ToQueryParams_params lib ((QueryForString s)\<lparr>queryVariables := Some [(k, v)]\<rparr>)
       = [[(''q'', s), (''len'', ''10''), (''var'' @ Itoa k, Sprintf_f lib v)]]"
    by (simp add: ToQueryParams_params_def ToQueryParams_build_def QueryForString_def
        ToQueryParams_head_def ToQueryParams_flags_def formatRangeParam_def entries_def Itoa_10 Let_def)
qed code_simp+

text \<open>
  C9 (amended). \<open>QueryVariable\<close> on a builder whose variable map is not nil is an upsert:
  afterwards the index holds the new value, every other index holds what it held, and
  no other field changes. \<open>QueryVariables\<close> does not merge: it replaces the builder's
  variable map by the map passed, whatever was set before.
\<close>

theorem QueryVariable_upsert_QueryVariables_replace:
  "(queryVariables q = Some m \<longrightarrow>
      (\<exists>m'. QueryVariable k v q = Returned (q\<lparr>queryVariables := Some m'\<rparr>)
          \<and> map_of m' k = Some v
          \<and> (\<forall>k'. k' \<noteq> k \<longrightarrow> map_of m' k' = map_of m k')
          \<and> (distinct (map fst m) \<longrightarrow> distinct (map fst m'))))
   \<and> QueryVariables variables q = q\<lparr>queryVariables := variables\<rparr>
   \<and> queryVariables (QueryVariables variables q) = variables"
  by (auto simp: QueryVariable_def QueryVariables_def update_conv' distinct_update)

theorem QueryVariable_upsert_QueryVariables_replace_witness:
  "queryVariables (QueryForString ''a'') = Some []
   \<and> QueryVariable 3 0x3FF8000000000000 (QueryForString ''a'')
       = Returned ((QueryForString ''a'')\<lparr>queryVariables := Some [(3, 0x3FF8000000000000)]\<rparr>)
   \<and> queryVariables (QueryVariables (Some [(1, 0x4000000000000000)])
        ((QueryForString ''a'')\<lparr>queryVariables := Some [(3, 0x3FF8000000000000)]\<rparr>))
       = Some [(1, 0x4000000000000000)]"
  using QueryVariable_upsert_QueryVariables_replace
    [of "QueryForString ''a''" "[]" 3 "0x3FF8000000000000" "Some [(1, 0x4000000000000000)]"]
    QueryVariable_upsert_QueryVariables_replace
    [of "(QueryForString ''a'')\<lparr>queryVariables := Some [(3, 0x3FF8000000000000)]\<rparr>" "[]" 3
        "0x3FF8000000000000" "Some [(1, 0x4000000000000000)]"]
  by (simp add: QueryForString_def QueryVariable_def)

theorem QueryVariables_drops_counterexample:
  "QueryVariable 3 0x3FF8000000000000 (QueryForString ''a'')
     = Returned ((QueryForString ''a'')\<lparr>queryVariables := Some [(3, 0x3FF8000000000000)]\<rparr>)
   \<and> map_of (entries (queryVariables ((QueryForString ''a'')\<lparr>queryVariables := Some [(3, 0x3FF8000000000000)]\<rparr>))) 3
       = Some 0x3FF8000000000000
   \<and> map_of (entries (queryVariables (QueryVariables (Some [(1, 0x4000000000000000)])
        ((QueryForString ''a'')\<lparr>queryVariables := Some [(3, 0x3FF8000000000000)]\<rparr>)))) 3 = None"
  by (simp add: QueryVariable_def QueryVariables_def QueryForString_def entries_def)

section \<open>Verification: the request helper and the index client\<close>

lemma isOk_iff: "isOk s \<longleftrightarrow> 200 \<le> s \<and> s \<le> 299"
  unfolding isOk_def signed_divide_int_def by (auto simp: sgn_if)

lemma Itoa_204: "Itoa 204 = ''204''"
  by code_simp

lemma toQueryString_None: "toQueryString None = [Returned '''']"
  by (simp add: toQueryString_def)

lemma toQueryString_single: "toQueryString (Some [(k, v)]) = [Returned (k @ ''='' @ QueryEscape v)]"
  by (simp add: toQueryString_def toQueryString_in_def)

lemma doRequest_reply_204:
  "StatusCode resp = 204 \<Longrightarrow>
   doRequest_reply dec (Some resp, e) = Returned (None, Some ''Index Already Exists 204'')"
  by (simp add: doRequest_reply_def Itoa_204)

text \<open>
  C10. When the response the request helper receives has status 204, the helper returns
  the error \<open>Index Already Exists 204\<close> and no value. So do the operations routed through
  it: the metadata refresh, \<open>GetMetadata\<close> on a client with no cached metadata (which stays
  without), \<open>Search\<close> and \<open>ListIndexes\<close>; and \<open>Exists\<close> returns false.
\<close>

theorem helper_204_is_error:
  "(StatusCode resp = 204 \<longrightarrow>
      doRequest_reply dec (Some resp, e) = Returned (None, Some ''Index Already Exists 204''))
   \<and> (StatusCode resp = 204 \<and> net ''GET'' (url client @ ''?'') = (Some resp, e) \<longrightarrow>
        refreshMetadata dec net client = [Returned (None, Some ''Index Already Exists 204'')]
      \<and> Exists dec net client = [Returned False]
      \<and> (metadata client = None \<longrightarrow>
           GetMetadata dec net client = [Returned (client, None, Some ''Index Already Exists 204'')]))
   \<and> (StatusCode resp = 204
        \<and> net ''GET'' (url client @ ''/search?q='' @ QueryEscape qs) = (Some resp, e) \<longrightarrow>
        Search dec net client qs = [Returned (None, Some ''Index Already Exists 204'')])
   \<and> (StatusCode resp = 204 \<and> net ''GET'' (apiUrl account @ ''/v1/indexes/?'') = (Some resp, e) \<longrightarrow>
        ListIndexes dec net account = [Returned (None, Some ''Index Already Exists 204'')])"
proof (intro conjI impI)
  assume "StatusCode resp = 204"
  then show "doRequest_reply dec (Some resp, e) = Returned (None, Some ''Index Already Exists 204'')"
    by (rule doRequest_reply_204)
next
  assume a: "StatusCode resp = 204 \<and> net ''GET'' (url client @ ''?'') = (Some resp, e)"
  then show r: "refreshMetadata dec net client = [Returned (None, Some ''Index Already Exists 204'')]"
    by (simp add: refreshMetadata_def doRequest_def toQueryString_None doRequest_reply_204)
  then show "Exists dec net client = [Returned False]"
    by (simp add: Exists_def)
  assume "metadata client = None"
  then show "GetMetadata dec net client = [Returned (client, None, Some ''Index Already Exists 204'')]"
    using r by (simp add: GetMetadata_def)
next
  assume "StatusCode resp = 204 \<and> net ''GET'' (url client @ ''/search?q='' @ QueryEscape qs) = (Some resp, e)"
  then show "Search dec net client qs = [Returned (None, Some ''Index Already Exists 204'')]"
    by (simp add: Search_def doRequest_def toQueryString_single doRequest_reply_204)
next
  assume "StatusCode resp = 204 \<and> net ''GET'' (apiUrl account @ ''/v1/indexes/?'') = (Some resp, e)"
  then show "ListIndexes dec net account = [Returned (None, Some ''Index Already Exists 204'')]"
    by (simp add: ListIndexes_def makeIndexUrl_def doRequest_def toQueryString_None doRequest_reply_204)
qed

theorem helper_204_is_error_witness:
  "StatusCode (sample_response 204 ''204 No Content'' '''') = 204
   \<and> Exists sample_dec (\<lambda>method uri. (Some (sample_response 204 ''204 No Content'' ''''), None))
        \<lparr>url = ''http://api/v1/indexes/idx'', metadata = None\<rparr> = [Returned False]
   \<and> GetMetadata sample_dec (\<lambda>method uri. (Some (sample_response 204 ''204 No Content'' ''''), None))
        \<lparr>url = ''http://api/v1/indexes/idx'', metadata = None\<rparr>
       = [Returned (\<lparr>url = ''http://api/v1/indexes/idx'', metadata = None\<rparr>, None,
                    Some ''Index Already Exists 204'')]
   \<and> Search sample_dec (\<lambda>method uri. (Some (sample_response 204 ''204 No Content'' ''''), None))
        \<lparr>url = ''http://api/v1/indexes/idx'', metadata = None\<rparr> ''golang''
       = [Returned (None, Some ''Index Already Exists 204'')]
   \<and> ListIndexes sample_dec (\<lambda>method uri. (Some (sample_response 204 ''204 No Content'' ''''), None))
        \<lparr>apiUrl = ''http://api''\<rparr>
       = [Returned (None, Some ''Index Already Exists 204'')]"
  using helper_204_is_error [of "sample_response 204 ''204 No Content'' ''''" sample_dec None
      "\<lambda>method uri. (Some (sample_response 204 ''204 No Content'' ''''), None)"
      "\<lparr>url = ''http://api/v1/indexes/idx'', metadata = None\<rparr>" "''golang''" "\<lparr>apiUrl = ''http://api''\<rparr>"]
  by (simp add: sample_response_def)

lemma newBatchResults_mismatch:
  "length documents \<noteq> length r \<Longrightarrow>
   newBatchResults documents r = Panicked ''Something is wrong, len(documents) != len(r) in newBatchResults''"
  by (simp add: newBatchResults_def)

lemma newBulkResults_mismatch:
  "length documentIds \<noteq> length r \<Longrightarrow>
   newBulkResults documentIds r = Panicked ''Something is wrong, len(documentIds) != len(r) in newBulkResults''"
  by (simp add: newBulkResults_def)

lemma newBatchResults_elements:
  "newBatchResults documents r = Returned bd \<Longrightarrow>
   length documents = length r \<and> addResults.elements bd = documents"
  by (auto simp: newBatchResults_def Let_def split: if_splits outcome.splits)

lemma newBulkResults_elements:
  "newBulkResults documentIds r = Returned bd \<Longrightarrow>
   length documentIds = length r \<and> deleteResults.elements bd = documentIds"
  by (auto simp: newBulkResults_def Let_def split: if_splits outcome.splits)

text \<open>
  C2. When the response to a batch add (status 2xx) or a batch delete (status 200)
  decodes to a list of outcome records whose length differs from the number of submitted
  items, the call fails and produces no result object: \<open>AddDocuments\<close> returns the error
  \<open>Something is wrong, we have N docs and M results\<close>, \<open>DeleteDocuments\<close> panics in
  \<open>newBulkResults\<close>. Whatever the reply, a result object is only ever returned for a
  decoded list of the same length as the input, and it holds the input list unchanged.
\<close>

theorem batch_length_mismatch_fails:
  "(isOk (StatusCode resp) \<and> Unmarshal_addResults dec (Body resp) = Inr r
      \<and> length r \<noteq> length documents \<longrightarrow>
      AddDocuments dec (Some resp, None) documents =
        Returned (None, Some (''Something is wrong, we have '' @ Itoa (int (length documents))
                      @ '' docs and '' @ Itoa (int (length r)) @ '' results'' @ [CHR 0x0A])))
   \<and> (StatusCode resp = 200 \<and> Unmarshal_deleteResults dec (Body resp) = Inr d
      \<and> length d \<noteq> length documentIds \<longrightarrow>
      DeleteDocuments dec (Some resp, None) documentIds =
        Panicked ''Something is wrong, len(documentIds) != len(r) in newBulkResults'')
   \<and> (AddDocuments dec rp documents = Returned (Some bd, e) \<longrightarrow>
        (\<exists>resp' r'. fst rp = Some resp' \<and> Unmarshal_addResults dec (Body resp') = Inr r'
            \<and> length r' = length documents \<and> addResults.elements bd = documents))
   \<and> (DeleteDocuments dec rp documentIds = Returned (Some bd', e) \<longrightarrow>
        (\<exists>resp' r'. fst rp = Some resp' \<and> Unmarshal_deleteResults dec (Body resp') = Inr r'
            \<and> length r' = length documentIds \<and> deleteResults.elements bd' = documentIds))"
proof (intro conjI impI)
  assume "isOk (StatusCode resp) \<and> Unmarshal_addResults dec (Body resp) = Inr r
      \<and> length r \<noteq> length documents"
  then show "AddDocuments dec (Some resp, None) documents =
        Returned (None, Some (''Something is wrong, we have '' @ Itoa (int (length documents))
                      @ '' docs and '' @ Itoa (int (length r)) @ '' results'' @ [CHR 0x0A]))"
    by (auto simp: AddDocuments_def)
next
  assume "StatusCode resp = 200 \<and> Unmarshal_deleteResults dec (Body resp) = Inr d
      \<and> length d \<noteq> length documentIds"
  then show "DeleteDocuments dec (Some resp, None) documentIds =
        Panicked ''Something is wrong, len(documentIds) != len(r) in newBulkResults''"
    using newBulkResults_mismatch [of documentIds d] by (simp add: DeleteDocuments_def)
next
  assume "AddDocuments dec rp documents = Returned (Some bd, e)"
  then show "\<exists>resp' r'. fst rp = Some resp' \<and> Unmarshal_addResults dec (Body resp') = Inr r'
            \<and> length r' = length documents \<and> addResults.elements bd = documents"
    by (auto simp: AddDocuments_def split: option.splits if_splits sum.splits outcome.splits
        dest: newBatchResults_elements)
next
  assume "DeleteDocuments dec rp documentIds = Returned (Some bd', e)"
  then show "\<exists>resp' r'. fst rp = Some resp' \<and> Unmarshal_deleteResults dec (Body resp') = Inr r'
            \<and> length r' = length documentIds \<and> deleteResults.elements bd' = documentIds"
    by (auto simp: DeleteDocuments_def split: option.splits if_splits sum.splits outcome.splits
        dest: newBulkResults_elements)
qed

theorem batch_length_mismatch_fails_witness:
  "isOk (StatusCode (sample_response 200 ''200 OK'' ''[{\"added\":true}]''))
   \<and> AddDocuments sample_dec (Some (sample_response 200 ''200 OK'' ''[{\"added\":true}]''), None)
        [sample_doc ''a'', sample_doc ''b'']
       = Returned (None, Some (''Something is wrong, we have 2 docs and 1 results'' @ [CHR 0x0A]))
   \<and> DeleteDocuments sample_dec (Some (sample_response 200 ''200 OK'' ''[{\"deleted\":true}]''), None)
        [''a'', ''b'']
       = Panicked ''Something is wrong, len(documentIds) != len(r) in newBulkResults''
   \<and> (\<exists>bd. AddDocuments sample_dec (Some (sample_response 200 ''200 OK'' ''[{\"added\":true}]''), None)
        [sample_doc ''a''] = Returned (Some bd, None) \<and> addResults.elements bd = [sample_doc ''a''])
   \<and> (\<exists>bd. DeleteDocuments sample_dec (Some (sample_response 200 ''200 OK'' ''[{\"deleted\":true}]''), None)
        [''a''] = Returned (Some bd, None) \<and> deleteResults.elements bd = [''a''])"
proof -
  have ok: "isOk (StatusCode (sample_response 200 ''200 OK'' ''[{\"added\":true}]''))"
    by (simp add: sample_response_def isOk_iff)
  have i: "Itoa (int (length [sample_doc ''a'', sample_doc ''b''])) = ''2''"
    "Itoa (int (length [\<lparr>Added = True, addResult.Error = ''''\<rparr>])) = ''1''"
    by (simp_all add: Itoa_def digits.simps)
  have a1: "\<exists>bd. AddDocuments sample_dec (Some (sample_response 200 ''200 OK'' ''[{\"added\":true}]''), None)
        [sample_doc ''a''] = Returned (Some bd, None)"
    by (simp add: AddDocuments_def sample_dec_def sample_response_def isOk_iff newBatchResults_def)
  have d1: "\<exists>bd. DeleteDocuments sample_dec (Some (sample_response 200 ''200 OK'' ''[{\"deleted\":true}]''), None)
        [''a''] = Returned (Some bd, None)"
    by (simp add: DeleteDocuments_def sample_dec_def sample_response_def newBulkResults_def)
  from a1 obtain bd where bd: "AddDocuments sample_dec (Some (sample_response 200 ''200 OK'' ''[{\"added\":true}]''), None)
        [sample_doc ''a''] = Returned (Some bd, None)" by blast
  from d1 obtain bd' where bd': "DeleteDocuments sample_dec (Some (sample_response 200 ''200 OK'' ''[{\"deleted\":true}]''), None)
        [''a''] = Returned (Some bd', None)" by blast
  note t1 = batch_length_mismatch_fails [where resp = "sample_response 200 ''200 OK'' ''[{\"added\":true}]''"
      and dec = sample_dec and r = "[\<lparr>Added = True, addResult.Error = ''''\<rparr>]"
      and documents = "[sample_doc ''a'', sample_doc ''b'']"]
  note t2 = batch_length_mismatch_fails [where resp = "sample_response 200 ''200 OK'' ''[{\"deleted\":true}]''"
      and dec = sample_dec and d = "[\<lparr>Deleted = True, deleteResult.Error = ''''\<rparr>]"
      and documentIds = "[''a'', ''b'']"
      and rp = "(Some (sample_response 200 ''200 OK'' ''[{\"added\":true}]''), None)"
      and documents = "[sample_doc ''a'']" and bd = bd and e = None]
  note t3 = batch_length_mismatch_fails [where dec = sample_dec
      and rp = "(Some (sample_response 200 ''200 OK'' ''[{\"deleted\":true}]''), None)"
      and documentIds = "[''a'']" and bd' = bd' and e = None]
  have A: "AddDocuments sample_dec (Some (sample_response 200 ''200 OK'' ''[{\"added\":true}]''), None)
        [sample_doc ''a'', sample_doc ''b'']
       = Returned (None, Some (''Something is wrong, we have 2 docs and 1 results'' @ [CHR 0x0A]))"
    using t1 [THEN conjunct1, THEN mp] ok i by (simp add: sample_dec_def sample_response_def)
  have D: "DeleteDocuments sample_dec (Some (sample_response 200 ''200 OK'' ''[{\"deleted\":true}]''), None)
        [''a'', ''b'']
       = Panicked ''Something is wrong, len(documentIds) != len(r) in newBulkResults''"
    by (rule t2 [THEN conjunct2, THEN conjunct1, THEN mp]) (simp add: sample_dec_def sample_response_def)
  have E: "addResults.elements bd = [sample_doc ''a'']"
    using t2 [THEN conjunct2, THEN conjunct2, THEN conjunct1, THEN mp, OF bd] by blast
  have F: "deleteResults.elements bd' = [''a'']"
    using t3 [THEN conjunct2, THEN conjunct2, THEN conjunct2, THEN mp, OF bd'] by blast
  show ?thesis using ok A D E F bd bd' by blast
qed

lemma Itoa_statuses: "Itoa 404 = ''404''" "Itoa 400 = ''400''" "Itoa 500 = ''500''"
  by code_simp+

lemma CreateIndexWithOptions_other_statuses:
  "StatusCode resp = 204 \<Longrightarrow>
     CreateIndexWithOptions dec net (Some resp, None) client = [Returned (client, Some ''Index already exists'')]"
  "StatusCode resp = 409 \<Longrightarrow>
     CreateIndexWithOptions dec net (Some resp, None) client =
       [Returned (client, Some ''Maximum indexes limit reached for this account'')]"
  "StatusCode resp \<notin> {201, 204, 409} \<Longrightarrow>
     CreateIndexWithOptions dec net (Some resp, None) client =
       [Returned (client, Some (''Unexpected error, HTTP status '' @ Itoa (StatusCode resp) @ '': '' @ Status resp))]"
  by (simp_all add: CreateIndexWithOptions_def)

lemma CreateIndexWithOptions_201_cached:
  "StatusCode resp = 201 \<Longrightarrow> metadata client \<noteq> None \<Longrightarrow>
     CreateIndexWithOptions dec net (Some resp, None) client = [Returned (client, None)]"
  by (auto simp: CreateIndexWithOptions_def GetMetadata_def)

lemma CreateIndexWithOptions_201_fetched:
  assumes "StatusCode resp = 201" "metadata client = None"
    and "net ''GET'' (url client @ ''?'') = (Some resp', e)"
    and "StatusCode resp' = 200" "Body resp' \<noteq> []" "Unmarshal_value dec (Body resp') = Inr (JObject m)"
  shows "CreateIndexWithOptions dec net (Some resp, None) client = [Returned (client\<lparr>metadata := Some m\<rparr>, None)]"
  using assms
  by (simp add: CreateIndexWithOptions_def GetMetadata_def refreshMetadata_def doRequest_def
      toQueryString_None doRequest_reply_def)

text \<open>
  C7 (the code at the failing input). The index is created (the PUT is answered 201), and
  the metadata request that \<open>CreateIndexWithOptions\<close> then makes either fails in transport,
  so that \<open>request\<close> returns a nil response, or is answered 200 with a body that is not a
  JSON object: the call panics in \<open>doRequest\<close> instead of returning success.
\<close>

theorem CreateIndexWithOptions_201_panics:
  "CreateIndexWithOptions dec (\<lambda>method uri. (None, Some ''dial tcp: connection refused''))
      (Some (sample_response 201 ''201 Created'' ''''), None) \<lparr>url = u, metadata = None\<rparr>
     = [Panicked ''invalid memory address or nil pointer dereference'']
   \<and> CreateIndex dec (\<lambda>method uri. (None, Some ''dial tcp: connection refused''))
      (Some (sample_response 201 ''201 Created'' ''''), None) \<lparr>url = u, metadata = None\<rparr>
     = [Panicked ''invalid memory address or nil pointer dereference'']
   \<and> CreateIndexWithOptions sample_dec (\<lambda>method uri. (Some (sample_response 200 ''200 OK'' ''[]''), None))
      (Some (sample_response 201 ''201 Created'' ''''), None) \<lparr>url = u, metadata = None\<rparr>
     = [Panicked ''interface conversion: not map[string]interface {}'']"
  by (simp add: CreateIndex_def CreateIndexWithOptions_def GetMetadata_def refreshMetadata_def doRequest_def
      toQueryString_None doRequest_reply_def sample_response_def sample_dec_def)

text \<open>
  C8 (the code at failing inputs). A 404 is not reported as a missing index by
  \<open>AddDocument\<close>, \<open>UpdateVariables\<close>, \<open>AddDocuments\<close>, \<open>AddFunction\<close> and \<open>DeleteFunction\<close>,
  and the first three report no status either; the body of a 400 is not reported by
  \<open>DeleteFunction\<close>, \<open>DeleteDocument\<close> and \<open>DeleteDocuments\<close>; and \<open>DeleteDocuments\<close> takes a
  204, a 2xx status, for a failure.
\<close>

theorem mutation_status_handling_differs:
  "AddDocument (Some (sample_response 404 ''404 Not Found'' ''''), None)
     = Returned (Some ''Unexpected error adding document'')
   \<and> UpdateVariables (Some (sample_response 404 ''404 Not Found'' ''''), None)
     = Returned (Some ''Unexpected error updating variables'')
   \<and> AddDocuments dec (Some (sample_response 404 ''404 Not Found'' ''''), None) documents
     = Returned (None, Some ''Unexpected error adding documents batch'')
   \<and> AddFunction (Some (sample_response 404 ''404 Not Found'' ''''), None)
     = Returned (Some ''Unexpected 404 error: 404 Not Found'')
   \<and> DeleteFunction (Some (sample_response 404 ''404 Not Found'' ''''), None)
     = Returned (Some ''Unexpected 404 error: 404 Not Found'')
   \<and> DeleteFunction (Some (sample_response 400 ''400 Bad Request'' ''no such function''), None)
     = Returned (Some ''400 Bad Request'')
   \<and> DeleteDocument (Some (sample_response 400 ''400 Bad Request'' ''invalid docid''), None)
     = Returned (Some ''Unexpected 400 error: 400 Bad Request'')
   \<and> DeleteDocuments dec (Some (sample_response 400 ''400 Bad Request'' ''invalid docid''), None) documentIds
     = Returned (None, Some ''Unexpected 400 error: 400 Bad Request'')
   \<and> isOk 204
   \<and> DeleteDocuments dec (Some (sample_response 204 ''204 No Content'' ''''), None) documentIds
     = Returned (None, Some ''Unexpected 204 error: 204 No Content'')
   \<and> AddDocument (Some (sample_response 500 ''500 Internal Server Error'' ''''), None)
     = Returned (Some ''Unexpected error adding document'')"
  by (simp add: AddDocument_def UpdateVariables_def AddDocuments_def AddFunction_def DeleteFunction_def
      DeleteDocument_def DeleteDocuments_def sample_response_def isOk_iff readResponseBody_def
      Itoa_statuses Itoa_204)

end
